theory Spec2Isabelle
  imports Main
begin

section \<open>JavaScript values, strings and exceptions\<close>

text \<open>
  A JavaScript string is a sequence of UTF-16 code units. A \<^typ>\<open>char\<close> of the model
  stands for one code unit in the range 0..255 (the code points U+0000..U+00FF, each a
  single code unit); \<open>length\<close>, \<open>take\<close> and \<open>drop\<close> therefore count what
  \<^verbatim>\<open>String.prototype.length\<close> and \<^verbatim>\<open>substring\<close> count.
\<close>

text \<open>The values that reach the code as parsed JSON, and \<^verbatim>\<open>undefined\<close>. Of a
  number only its being zero or not matters here, so an integer stands for it.\<close>

text \<open>What a \<^verbatim>\<open>throw\<close> can carry: an \<^verbatim>\<open>Error\<close> (or a subclass) with its
  message, the error object of the HTTP client with its message and the response it
  may hold (status and body), or any value that is not an \<^verbatim>\<open>Error\<close>. The messages
  of the errors that the engine throws are V8's, without their quotation marks.\<close>

datatype error_kind = PlainError | TypeError | SyntaxError

datatype json =
    JUndefined
  | JNull
  | JBool bool
  | JNum int
  | JStr string
  | JArr "json list"
  | JObj "(string \<times> json) list"

datatype thrown =
    Error error_kind string
  | AxiosError string "(nat \<times> json) option"
  | NonError

text \<open>\<^verbatim>\<open>error instanceof Error ? error.message : dflt\<close>. The HTTP client's error
  object is an \<^verbatim>\<open>Error\<close> too.\<close>

definition message_or :: "string \<Rightarrow> thrown \<Rightarrow> string" where
  "message_or dflt e =
     (case e of Error k m \<Rightarrow> m | AxiosError m r \<Rightarrow> m | NonError \<Rightarrow> dflt)"

text \<open>Sequencing of steps that may throw, and \<^verbatim>\<open>try { body } catch (e) { handler }\<close>.\<close>

definition bind_thrown :: "thrown + 'a \<Rightarrow> ('a \<Rightarrow> thrown + 'b) \<Rightarrow> thrown + 'b" where
  "bind_thrown m f = (case m of Inl e \<Rightarrow> Inl e | Inr x \<Rightarrow> f x)"

definition try_catch :: "thrown + 'a \<Rightarrow> (thrown \<Rightarrow> thrown + 'a) \<Rightarrow> thrown + 'a" where
  "try_catch body handler = (case body of Inl e \<Rightarrow> handler e | Inr x \<Rightarrow> Inr x)"

text \<open>\<^verbatim>\<open>typeof v === 'string'\<close> and the truthiness of a value.\<close>

fun is_string :: "json \<Rightarrow> bool" where
  "is_string (JStr s) = True"
| "is_string v = False"

fun truthy :: "json \<Rightarrow> bool" where
  "truthy JUndefined = False"
| "truthy JNull = False"
| "truthy (JBool b) = b"
| "truthy (JNum n) = (n \<noteq> 0)"
| "truthy (JStr s) = (s \<noteq> [])"
| "truthy (JArr xs) = True"
| "truthy (JObj kvs) = True"

text \<open>\<^verbatim>\<open>typeof v === 'object'\<close>: true of objects, arrays and \<^verbatim>\<open>null\<close>.\<close>

fun typeof_object :: "json \<Rightarrow> bool" where
  "typeof_object JNull = True"
| "typeof_object (JArr xs) = True"
| "typeof_object (JObj kvs) = True"
| "typeof_object v = False"

text \<open>Reading one of the payment request's properties, \<^verbatim>\<open>v.name\<close>: a
  \<^verbatim>\<open>TypeError\<close> on \<^verbatim>\<open>null\<close> and \<^verbatim>\<open>undefined\<close>, the stored value on an
  object that has the key, \<^verbatim>\<open>undefined\<close> on everything else (no array, string,
  number or boolean has a property of one of these names).\<close>

fun get_prop :: "json \<Rightarrow> string \<Rightarrow> thrown + json" where
  "get_prop JUndefined k = Inl (Error TypeError (''Cannot read properties of undefined (reading '' @ k @ '')''))"
| "get_prop JNull k = Inl (Error TypeError (''Cannot read properties of null (reading '' @ k @ '')''))"
| "get_prop (JObj kvs) k = Inr (case map_of kvs k of None \<Rightarrow> JUndefined | Some v \<Rightarrow> v)"
| "get_prop v k = Inr JUndefined"

text \<open>\<^verbatim>\<open>typeof request.name === 'string'\<close>, which throws when the property read does.\<close>

definition prop_is_string :: "json \<Rightarrow> string \<Rightarrow> thrown + bool" where
  "prop_is_string v k = (case get_prop v k of Inl e \<Rightarrow> Inl e | Inr x \<Rightarrow> Inr (is_string x))"

text \<open>\<^verbatim>\<open>a && b\<close> on results that may throw: \<open>b\<close> is evaluated only when \<open>a\<close> is true.\<close>

definition and_then :: "thrown + bool \<Rightarrow> thrown + bool \<Rightarrow> thrown + bool" where
  "and_then a b = (case a of Inl e \<Rightarrow> Inl e | Inr False \<Rightarrow> Inr False | Inr True \<Rightarrow> b)"

section \<open>The structural validators\<close>

text \<open>\<^verbatim>\<open>request.network === 'mainnet' || request.network === 'testnet'\<close>\<close>

definition network_ok :: "json \<Rightarrow> thrown + bool" where
  "network_ok v =
     (case get_prop v ''network'' of
        Inl e \<Rightarrow> Inl e
      | Inr n \<Rightarrow> Inr (n = JStr ''mainnet'' \<or> n = JStr ''testnet''))"

text \<open>The conjunction both validators share, from \<^verbatim>\<open>maxAmountRequired\<close> on.\<close>

definition six_fields :: "json \<Rightarrow> thrown + bool" where
  "six_fields request =
     and_then (prop_is_string request ''maxAmountRequired'')
    (and_then (prop_is_string request ''resource'')
    (and_then (prop_is_string request ''payTo'')
    (and_then (prop_is_string request ''network'')
    (and_then (prop_is_string request ''nonce'')
    (and_then (prop_is_string request ''expiresAt'')
              (network_ok request))))))"

text \<open>\<^verbatim>\<open>X402PaymentClient.isValidPaymentRequest\<close> (client.ts): the first conjunct is
  \<^verbatim>\<open>typeof request === 'object'\<close>, with no test for \<^verbatim>\<open>null\<close>.\<close>

definition isValidPaymentRequest_client :: "json \<Rightarrow> thrown + bool" where
  "isValidPaymentRequest_client request =
     and_then (Inr (typeof_object request)) (six_fields request)"

text \<open>\<^verbatim>\<open>isValidPaymentRequest\<close> of the interceptor: it returns false first on
  \<^verbatim>\<open>!data || typeof data !== 'object'\<close>.\<close>

definition isValidPaymentRequest :: "json \<Rightarrow> thrown + bool" where
  "isValidPaymentRequest data =
     (if \<not> truthy data \<or> \<not> typeof_object data then Inr False else six_fields data)"

text \<open>The claim's reading of a valid candidate: a mapping whose six fields are
  strings, with network one of the two names.\<close>

definition has_string :: "(string \<times> json) list \<Rightarrow> string \<Rightarrow> bool" where
  "has_string kvs k = (case map_of kvs k of Some (JStr s) \<Rightarrow> True | _ \<Rightarrow> False)"

fun well_formed_request :: "json \<Rightarrow> bool" where
  "well_formed_request (JObj kvs) =
     (has_string kvs ''maxAmountRequired'' \<and> has_string kvs ''resource'' \<and>
      has_string kvs ''payTo'' \<and> has_string kvs ''network'' \<and>
      has_string kvs ''nonce'' \<and> has_string kvs ''expiresAt'' \<and>
      (map_of kvs ''network'' = Some (JStr ''mainnet'') \<or>
       map_of kvs ''network'' = Some (JStr ''testnet'')))"
| "well_formed_request v = False"

lemma and_then_Inr [simp]: "and_then (Inr a) (Inr b) = Inr (a \<and> b)"
  by (cases a) (simp_all add: and_then_def)

lemma and_then_False [simp]: "and_then (Inr False) b = Inr False"
  by (simp add: and_then_def)

lemma and_then_True [simp]: "and_then (Inr True) b = b"
  by (simp add: and_then_def)

lemma prop_is_string_obj:
  "prop_is_string (JObj kvs) k = Inr (has_string kvs k)"
  by (simp add: prop_is_string_def has_string_def split: option.splits json.splits)

lemma network_ok_obj:
  "network_ok (JObj kvs) =
     Inr (map_of kvs ''network'' = Some (JStr ''mainnet'') \<or>
          map_of kvs ''network'' = Some (JStr ''testnet''))"
  by (auto simp: network_ok_def split: option.splits)

lemma six_fields_obj: "six_fields (JObj kvs) = Inr (well_formed_request (JObj kvs))"
  by (simp add: six_fields_def prop_is_string_obj network_ok_obj)

lemma six_fields_arr: "six_fields (JArr xs) = Inr False"
  by (simp add: six_fields_def prop_is_string_def)

lemma isValidPaymentRequest_total:
  "isValidPaymentRequest data = Inr (well_formed_request data)"
  by (cases data) (simp_all add: isValidPaymentRequest_def six_fields_obj six_fields_arr)

lemma isValidPaymentRequest_client_non_null:
  "request \<noteq> JNull \<Longrightarrow> isValidPaymentRequest_client request = Inr (well_formed_request request)"
  by (cases request)
     (simp_all add: isValidPaymentRequest_client_def six_fields_obj six_fields_arr)

text \<open>
  C6 (code defect). The claim: for every input value, \<^verbatim>\<open>null\<close> included, the
  structural validator returns a boolean without throwing. The validator of
  client.ts throws a \<^verbatim>\<open>TypeError\<close> on \<^verbatim>\<open>null\<close>: \<^verbatim>\<open>typeof null\<close> is
  \<^verbatim>\<open>'object'\<close>, so the next conjunct reads a property of \<^verbatim>\<open>null\<close>. The
  interceptor's validator returns false there.
\<close>

theorem C6_client_validator_throws_on_null:
  "isValidPaymentRequest_client JNull =
     Inl (Error TypeError ''Cannot read properties of null (reading maxAmountRequired)'')"
  by (simp add: isValidPaymentRequest_client_def six_fields_def prop_is_string_def and_then_def)

lemma interceptor_validator_on_null: "isValidPaymentRequest JNull = Inr False"
  by (simp add: isValidPaymentRequest_def)

section \<open>The data model (types.ts)\<close>

text \<open>\<^verbatim>\<open>TokenType\<close> and \<^verbatim>\<open>NetworkType\<close> are unions of string literals: the code
  compares them as strings, and so does the model.\<close>

text \<open>The declared type of the two fields of a token contract is string. The code
  never checks it: a field holds whatever the 402 body holds under its name,
  \<^verbatim>\<open>undefined\<close> when it holds nothing, and is handed on to the chain SDK as it is.\<close>

record TokenContract =
  address :: json
  name :: json

record X402PaymentRequired =
  maxAmountRequired :: string
  resource :: string
  payTo :: string
  network :: string
  nonce :: string
  expiresAt :: string
  memo :: "string option"
  tokenType :: "string option"
  tokenContract :: "TokenContract option"

record PaymentDetails =
  recipient :: string
  amount :: int
  senderKey :: string
  d_network :: string
  d_memo :: "string option"
  d_nonce :: "int option"
  d_fee :: "int option"
  d_tokenType :: "string option"
  d_tokenContract :: "TokenContract option"

record SignedPaymentResult =
  signedTransaction :: string
  success :: bool
  senderAddress :: "string option"
  error :: "string option"

record StacksAccount =
  account_address :: string
  account_privateKey :: string
  account_network :: string

text \<open>The fields of \<^verbatim>\<open>X402ClientConfig\<close> the client keeps.\<close>

record X402PaymentClient =
  client_network :: string
  privateKey :: string

section \<open>The chain SDK, at its boundary\<close>

text \<open>Clarity values, the option objects of the two transaction builders, and the
  functions of \<^verbatim>\<open>@stacks/transactions\<close> the code calls. Each can throw. A builder
  returns the serialised signed transaction (\<^verbatim>\<open>transaction.serialize()\<close>).\<close>

datatype clarity =
    UIntCV string
  | PrincipalCV string
  | BufferCV string
  | SomeCV clarity
  | NoneCV

record stx_options =
  o_recipient :: string
  o_amount :: int
  o_senderKey :: string
  o_network :: string
  o_memo :: string
  o_nonce :: "int option"
  o_fee :: "int option"

record call_options =
  contractAddress :: json
  contractName :: json
  functionName :: string
  functionArgs :: "clarity list"
  c_senderKey :: string
  c_network :: string
  postConditionMode :: string
  c_nonce :: "int option"
  c_fee :: "int option"

record sdk =
  getAddressFromPrivateKey :: "string \<Rightarrow> string \<Rightarrow> thrown + string"
  makeSTXTokenTransfer :: "stx_options \<Rightarrow> thrown + string"
  makeContractCall :: "call_options \<Rightarrow> thrown + string"
  uintCV :: "string \<Rightarrow> thrown + clarity"
  principalCV :: "string \<Rightarrow> thrown + clarity"

section \<open>BigInt\<close>

text \<open>\<^verbatim>\<open>BigInt(string)\<close>: white space is trimmed, the empty string is 0, then a
  decimal literal with an optional sign, or an unsigned hexadecimal, octal or binary
  literal; anything else throws a \<^verbatim>\<open>SyntaxError\<close>.\<close>

definition is_ws :: "char \<Rightarrow> bool" where
  "is_ws c = (c \<in> set [CHR 0x09, CHR 0x0A, CHR 0x0B, CHR 0x0C, CHR 0x0D, CHR 0x20, CHR 0xA0])"

definition trim :: "string \<Rightarrow> string" where
  "trim s = rev (dropWhile is_ws (rev (dropWhile is_ws s)))"

definition digit_val :: "char \<Rightarrow> nat option" where
  "digit_val c =
     (let n = (of_char c :: nat) in
      if 48 \<le> n \<and> n \<le> 57 then Some (n - 48)
      else if 97 \<le> n \<and> n \<le> 122 then Some (n - 87)
      else if 65 \<le> n \<and> n \<le> 90 then Some (n - 55)
      else None)"

fun digits_value :: "nat \<Rightarrow> nat \<Rightarrow> string \<Rightarrow> nat option" where
  "digits_value base acc [] = Some acc"
| "digits_value base acc (c # cs) =
     (case digit_val c of
        None \<Rightarrow> None
      | Some d \<Rightarrow> if d < base then digits_value base (acc * base + d) cs else None)"

definition literal_value :: "nat \<Rightarrow> string \<Rightarrow> nat option" where
  "literal_value base ds = (if ds = [] then None else digits_value base 0 ds)"

definition StringToBigInt :: "string \<Rightarrow> int option" where
  "StringToBigInt t =
     (if t = [] then Some 0
      else if take 2 t = ''0x'' \<or> take 2 t = ''0X'' then map_option int (literal_value 16 (drop 2 t))
      else if take 2 t = ''0o'' \<or> take 2 t = ''0O'' then map_option int (literal_value 8 (drop 2 t))
      else if take 2 t = ''0b'' \<or> take 2 t = ''0B'' then map_option int (literal_value 2 (drop 2 t))
      else if hd t = CHR ''-'' then map_option (\<lambda>n. - int n) (literal_value 10 (tl t))
      else if hd t = CHR ''+'' then map_option int (literal_value 10 (tl t))
      else map_option int (literal_value 10 t))"

definition BigInt :: "string \<Rightarrow> thrown + int" where
  "BigInt s =
     (case StringToBigInt (trim s) of
        None \<Rightarrow> Inl (Error SyntaxError (''Cannot convert '' @ s @ '' to a BigInt''))
      | Some n \<Rightarrow> Inr n)"

text \<open>\<^verbatim>\<open>bigint.toString()\<close>: the decimal digits, with a minus sign below zero.\<close>

fun decimal :: "nat \<Rightarrow> string" where
  "decimal n =
     (if n < 10 then [char_of (48 + n)] else decimal (n div 10) @ [char_of (48 + n mod 10)])"

definition toString :: "int \<Rightarrow> string" where
  "toString i = (if i < 0 then CHR ''-'' # decimal (nat (- i)) else decimal (nat i))"

section \<open>Signing (client.ts)\<close>

text \<open>\<^verbatim>\<open>value || dflt\<close> on an optional string: the default replaces an absent and an
  empty string.\<close>

definition or_default :: "string option \<Rightarrow> string \<Rightarrow> string" where
  "or_default v dflt = (case v of None \<Rightarrow> dflt | Some s \<Rightarrow> if s = [] then dflt else s)"

text \<open>\<^verbatim>\<open>network === 'mainnet' ? 'mainnet' : 'testnet'\<close>\<close>

definition address_network :: "string \<Rightarrow> string" where
  "address_network n = (if n = ''mainnet'' then ''mainnet'' else ''testnet'')"

definition failure :: "string \<Rightarrow> SignedPaymentResult" where
  "failure msg = \<lparr>signedTransaction = [], success = False, senderAddress = None, error = Some msg\<rparr>"

definition signed :: "string \<Rightarrow> string \<Rightarrow> SignedPaymentResult" where
  "signed tx sender = \<lparr>signedTransaction = tx, success = True, senderAddress = Some sender, error = None\<rparr>"

text \<open>The \<^verbatim>\<open>txOptions\<close> of \<^verbatim>\<open>signSTXTransfer\<close>.\<close>

definition stx_txOptions :: "X402PaymentClient \<Rightarrow> PaymentDetails \<Rightarrow> stx_options" where
  "stx_txOptions c details =
     \<lparr>o_recipient = recipient details,
      o_amount = amount details,
      o_senderKey = privateKey c,
      o_network = d_network details,
      o_memo = or_default (d_memo details) [],
      o_nonce = d_nonce details,
      o_fee = d_fee details\<rparr>"

definition signSTXTransfer :: "sdk \<Rightarrow> X402PaymentClient \<Rightarrow> PaymentDetails \<Rightarrow> thrown + SignedPaymentResult" where
  "signSTXTransfer k c details =
     try_catch
       (bind_thrown (getAddressFromPrivateKey k (senderKey details) (address_network (d_network details)))
          (\<lambda>sender.
        bind_thrown (makeSTXTokenTransfer k (stx_txOptions c details))
          (\<lambda>tx. Inr (signed tx sender))))
       (\<lambda>e. Inr (failure (message_or ''Transaction signing failed'' e)))"

text \<open>The SIP-010 arguments, built in the order of the array literal:
  \<^verbatim>\<open>details.memo ? someCV(bufferCVFromString(details.memo)) : noneCV()\<close> comes last
  and only builds a value.\<close>

definition sip010_args :: "sdk \<Rightarrow> PaymentDetails \<Rightarrow> string \<Rightarrow> thrown + clarity list" where
  "sip010_args k details sender =
     bind_thrown (uintCV k (toString (amount details))) (\<lambda>a.
     bind_thrown (principalCV k sender) (\<lambda>s.
     bind_thrown (principalCV k (recipient details)) (\<lambda>r.
       Inr [a, s, r,
            (case d_memo details of
               None \<Rightarrow> NoneCV
             | Some m \<Rightarrow> if m = [] then NoneCV else SomeCV (BufferCV m))])))"

definition call_txOptions :: "X402PaymentClient \<Rightarrow> PaymentDetails \<Rightarrow> TokenContract \<Rightarrow> clarity list \<Rightarrow> call_options" where
  "call_txOptions c details tc args =
     \<lparr>contractAddress = address tc,
      contractName = name tc,
      functionName = ''transfer'',
      functionArgs = args,
      c_senderKey = privateKey c,
      c_network = d_network details,
      postConditionMode = ''allow'',
      c_nonce = d_nonce details,
      c_fee = d_fee details\<rparr>"

text \<open>\<^verbatim>\<open>signSBTCTransfer\<close> and \<^verbatim>\<open>signUSDCxTransfer\<close> are the same text but for the
  token's label in two messages: the body is written once, with the label.\<close>

definition signFungibleTransfer ::
  "string \<Rightarrow> sdk \<Rightarrow> X402PaymentClient \<Rightarrow> PaymentDetails \<Rightarrow> thrown + SignedPaymentResult" where
  "signFungibleTransfer label k c details =
     try_catch
       (bind_thrown (getAddressFromPrivateKey k (senderKey details) (address_network (d_network details)))
          (\<lambda>sender.
        case d_tokenContract details of
          None \<Rightarrow> Inl (Error PlainError (''Token contract required for '' @ label @ '' transfers''))
        | Some tc \<Rightarrow>
            bind_thrown (sip010_args k details sender) (\<lambda>args.
            bind_thrown (makeContractCall k (call_txOptions c details tc args))
              (\<lambda>tx. Inr (signed tx sender)))))
       (\<lambda>e. Inr (failure (message_or (label @ '' signing failed'') e)))"

definition signSBTCTransfer :: "sdk \<Rightarrow> X402PaymentClient \<Rightarrow> PaymentDetails \<Rightarrow> thrown + SignedPaymentResult" where
  "signSBTCTransfer = signFungibleTransfer ''sBTC''"

definition signUSDCxTransfer :: "sdk \<Rightarrow> X402PaymentClient \<Rightarrow> PaymentDetails \<Rightarrow> thrown + SignedPaymentResult" where
  "signUSDCxTransfer = signFungibleTransfer ''USDCx''"

text \<open>The \<^verbatim>\<open>paymentDetails\<close> of \<^verbatim>\<open>signPayment\<close>; the memo is
  \<^verbatim>\<open>paymentRequest.nonce.substring(0, 34)\<close>.\<close>

definition payment_details :: "X402PaymentClient \<Rightarrow> X402PaymentRequired \<Rightarrow> int \<Rightarrow> PaymentDetails" where
  "payment_details c pr amt =
     \<lparr>recipient = payTo pr,
      amount = amt,
      senderKey = privateKey c,
      d_network = network pr,
      d_memo = Some (take 34 (nonce pr)),
      d_nonce = None,
      d_fee = None,
      d_tokenType = Some (or_default (tokenType pr) ''STX''),
      d_tokenContract = tokenContract pr\<rparr>"

definition signPayment :: "sdk \<Rightarrow> X402PaymentClient \<Rightarrow> X402PaymentRequired \<Rightarrow> thrown + SignedPaymentResult" where
  "signPayment k c pr =
     try_catch
       (bind_thrown (BigInt (maxAmountRequired pr)) (\<lambda>amt.
          let tt = or_default (tokenType pr) ''STX'';
              details = payment_details c pr amt
          in if tt = ''sBTC'' then signSBTCTransfer k c details
             else if tt = ''USDCx'' then signUSDCxTransfer k c details
             else signSTXTransfer k c details))
       (\<lambda>e. Inr (failure (message_or ''Unknown error'' e)))"

text \<open>A stand-in for the chain SDK, for evaluating the code on concrete inputs: it
  derives an address from any non-empty key and signs everything.\<close>

definition stub_sdk :: sdk where
  "stub_sdk =
     \<lparr>getAddressFromPrivateKey =
        (\<lambda>key net. if key = [] then Inl (Error PlainError ''Invalid private key'')
                    else Inr (''ST'' @ key)),
      makeSTXTokenTransfer = (\<lambda>opts. Inr ''00aa''),
      makeContractCall = (\<lambda>opts. Inr ''00bb''),
      uintCV = (\<lambda>s. Inr (UIntCV s)),
      principalCV = (\<lambda>s. Inr (PrincipalCV s))\<rparr>"

text \<open>The number of bytes of a string in UTF-8, which is how the chain encodes a memo:
  a code unit below 0x80 is one byte, one from 0x80 to 0xFF is two.\<close>

definition utf8_size :: "char \<Rightarrow> nat" where
  "utf8_size c = (if (of_char c :: nat) < 128 then 1 else 2)"

definition utf8_length :: "string \<Rightarrow> nat" where
  "utf8_length s = sum_list (map utf8_size s)"

lemmas BigInt_eval =
  BigInt_def StringToBigInt_def trim_def is_ws_def literal_value_def digit_val_def


text \<open>What \<^verbatim>\<open>signPayment\<close> returns for a fungible token with no contract: always a
  failure, whose message comes from the first step that throws.\<close>

lemma signPayment_fungible_no_contract:
  assumes "tokenType pr = Some label" and "label = ''sBTC'' \<or> label = ''USDCx''"
    and "tokenContract pr = None"
  shows "signPayment k c pr =
     Inr (failure
       (case BigInt (maxAmountRequired pr) of
          Inl e \<Rightarrow> message_or ''Unknown error'' e
        | Inr n \<Rightarrow>
           (case getAddressFromPrivateKey k (privateKey c) (address_network (network pr)) of
              Inl e \<Rightarrow> message_or (label @ '' signing failed'') e
            | Inr a \<Rightarrow> ''Token contract required for '' @ label @ '' transfers'')))"
  using assms
  by (auto simp: signPayment_def signSBTCTransfer_def signUSDCxTransfer_def signFungibleTransfer_def
      try_catch_def bind_thrown_def payment_details_def or_default_def message_or_def Let_def
      split: sum.splits)

text \<open>
  C4, as amended. For every payment request with token type sBTC or USDCx and no token
  contract, \<^verbatim>\<open>signPayment\<close> returns a failure with an empty signed transaction.
  The message is \<^verbatim>\<open>Token contract required for <token> transfers\<close> when
  \<^verbatim>\<open>maxAmountRequired\<close> converts to a BigInt and the sender's address can be derived
  from the key; when one of these two earlier steps throws, the message is that
  step's.
\<close>

theorem C4_missing_contract_fails:
  assumes "tokenType pr = Some label" and "label = ''sBTC'' \<or> label = ''USDCx''"
    and "tokenContract pr = None"
  shows "\<exists>r. signPayment k c pr = Inr r \<and> \<not> success r \<and> signedTransaction r = [] \<and>
    (\<forall>n a. BigInt (maxAmountRequired pr) = Inr n \<longrightarrow>
        getAddressFromPrivateKey k (privateKey c) (address_network (network pr)) = Inr a \<longrightarrow>
        error r = Some (''Token contract required for '' @ label @ '' transfers'')) \<and>
    (\<forall>e. BigInt (maxAmountRequired pr) = Inl e \<longrightarrow>
        error r = Some (message_or ''Unknown error'' e)) \<and>
    (\<forall>n e. BigInt (maxAmountRequired pr) = Inr n \<longrightarrow>
        getAddressFromPrivateKey k (privateKey c) (address_network (network pr)) = Inl e \<longrightarrow>
        error r = Some (message_or (label @ '' signing failed'') e))"
  by (auto simp: signPayment_fungible_no_contract [OF assms] failure_def)

theorem C4_missing_contract_fails_witness:
  "\<exists>r. signPayment stub_sdk \<lparr>client_network = ''testnet'', privateKey = ''k1''\<rparr>
          \<lparr>maxAmountRequired = ''1000000'', resource = ''/r'', payTo = ''ST1'',
           network = ''testnet'', nonce = ''n1'', expiresAt = ''2030-01-01T00:00:00Z'',
           memo = None, tokenType = Some ''USDCx'', tokenContract = None\<rparr> = Inr r
        \<and> \<not> success r \<and> signedTransaction r = []
        \<and> error r = Some ''Token contract required for USDCx transfers''"
  using C4_missing_contract_fails [of
      "\<lparr>maxAmountRequired = ''1000000'', resource = ''/r'', payTo = ''ST1'',
        network = ''testnet'', nonce = ''n1'', expiresAt = ''2030-01-01T00:00:00Z'',
        memo = None, tokenType = Some ''USDCx'', tokenContract = None\<rparr>"
      "''USDCx''" stub_sdk "\<lparr>client_network = ''testnet'', privateKey = ''k1''\<rparr>"]
  by (simp add: BigInt_eval stub_sdk_def address_network_def)

text \<open>The claim as first stated fails where \<^verbatim>\<open>maxAmountRequired\<close> is not an integer:
  the failure's message is BigInt's, and says nothing of a contract.\<close>

theorem C4_missing_contract_counterexample:
  "signPayment stub_sdk \<lparr>client_network = ''testnet'', privateKey = ''k1''\<rparr>
     \<lparr>maxAmountRequired = ''abc'', resource = ''/r'', payTo = ''ST1'', network = ''testnet'',
      nonce = ''n1'', expiresAt = ''2030-01-01T00:00:00Z'', memo = None,
      tokenType = Some ''sBTC'', tokenContract = None\<rparr>
   = Inr (failure ''Cannot convert abc to a BigInt'')"
  by (simp add: signPayment_def try_catch_def bind_thrown_def message_or_def BigInt_eval)

text \<open>The native transfer that \<^verbatim>\<open>signPayment\<close> builds: the recipient is
  \<^verbatim>\<open>payTo\<close>, the amount the BigInt of \<^verbatim>\<open>maxAmountRequired\<close>, the memo the first
  34 code units of the nonce.\<close>

lemma signPayment_native:
  assumes "or_default (tokenType pr) ''STX'' \<noteq> ''sBTC''"
    and "or_default (tokenType pr) ''STX'' \<noteq> ''USDCx''"
    and "BigInt (maxAmountRequired pr) = Inr n"
  shows "signPayment k c pr =
     (case getAddressFromPrivateKey k (privateKey c) (address_network (network pr)) of
        Inl e \<Rightarrow> Inr (failure (message_or ''Transaction signing failed'' e))
      | Inr sender \<Rightarrow>
         (case makeSTXTokenTransfer k
                 \<lparr>o_recipient = payTo pr, o_amount = n, o_senderKey = privateKey c,
                  o_network = network pr, o_memo = take 34 (nonce pr),
                  o_nonce = None, o_fee = None\<rparr> of
            Inl e \<Rightarrow> Inr (failure (message_or ''Transaction signing failed'' e))
          | Inr tx \<Rightarrow> Inr (signed tx sender)))"
  using assms
  by (auto simp: signPayment_def signSTXTransfer_def stx_txOptions_def
      try_catch_def bind_thrown_def payment_details_def or_default_def Let_def
      split: sum.splits)

lemma native_memo_code_units:
  "length (o_memo (stx_txOptions c (payment_details c pr n))) \<le> 34"
  by (simp add: stx_txOptions_def payment_details_def or_default_def)

lemma utf8_length_ascii:
  "\<forall>ch \<in> set s. (of_char ch :: nat) < 128 \<Longrightarrow> utf8_length s = length s"
  by (induction s) (simp_all add: utf8_length_def utf8_size_def)

lemma native_memo_ascii_bytes:
  assumes "\<forall>ch \<in> set (nonce pr). (of_char ch :: nat) < 128"
  shows "utf8_length (o_memo (stx_txOptions c (payment_details c pr n))) \<le> 34"
proof -
  have "\<forall>ch \<in> set (take 34 (nonce pr)). (of_char ch :: nat) < 128"
    using assms by (auto dest: in_set_takeD)
  then have "utf8_length (take 34 (nonce pr)) = length (take 34 (nonce pr))"
    by (rule utf8_length_ascii)
  moreover have "utf8_length [] = 0"
    by (simp add: utf8_length_def)
  ultimately show ?thesis
    by (simp add: stx_txOptions_def payment_details_def or_default_def)
qed

text \<open>
  C8 (code defect). The claim: the memo of the native transfer is the first 34 bytes of
  the nonce and never exceeds 34 bytes, multi-byte characters included. The code cuts
  the nonce with \<^verbatim>\<open>substring(0, 34)\<close>, which counts UTF-16 code units: for a nonce of
  34 letters U+00E9 \<^verbatim>\<open>signPayment\<close> builds the native transfer with the whole nonce
  as its memo, 68 bytes in UTF-8.
\<close>

theorem C8_memo_exceeds_34_bytes:
  "signPayment k c
     \<lparr>maxAmountRequired = ''1000000'', resource = ''/r'', payTo = ''ST1'', network = ''testnet'',
      nonce = replicate 34 (CHR 0xE9), expiresAt = ''2030-01-01T00:00:00Z'', memo = None,
      tokenType = None, tokenContract = None\<rparr>
   = signSTXTransfer k c
       (payment_details c
          \<lparr>maxAmountRequired = ''1000000'', resource = ''/r'', payTo = ''ST1'', network = ''testnet'',
           nonce = replicate 34 (CHR 0xE9), expiresAt = ''2030-01-01T00:00:00Z'', memo = None,
           tokenType = None, tokenContract = None\<rparr> 1000000)
   \<and> o_memo (stx_txOptions c (payment_details c
          \<lparr>maxAmountRequired = ''1000000'', resource = ''/r'', payTo = ''ST1'', network = ''testnet'',
           nonce = replicate 34 (CHR 0xE9), expiresAt = ''2030-01-01T00:00:00Z'', memo = None,
           tokenType = None, tokenContract = None\<rparr> 1000000)) = replicate 34 (CHR 0xE9)
   \<and> utf8_length (replicate 34 (CHR 0xE9)) = 68"
  by (simp add: signPayment_def signSTXTransfer_def try_catch_def bind_thrown_def
      stx_txOptions_def payment_details_def or_default_def utf8_length_def utf8_size_def
      sum_list_replicate BigInt_eval split: sum.splits)

section \<open>The request loop (client.ts, requestWithPayment)\<close>

text \<open>The body of a 402 response, read as an \<^verbatim>\<open>X402PaymentRequired\<close> (a cast in
  the source), for the signer. The six required fields are strings once the validator
  has accepted the body. The signer reads \<^verbatim>\<open>tokenType\<close> only to compare it with
  the two names \<^verbatim>\<open>'sBTC'\<close> and \<^verbatim>\<open>'USDCx'\<close>, so a value that is not a string
  selects the native transfer as an absent one does; it never reads \<^verbatim>\<open>memo\<close>. The
  header \<^verbatim>\<open>X-PAYMENT-TOKEN-TYPE\<close> is not made from this view but from the body itself
  (see \<open>token_type_header\<close>). A \<^verbatim>\<open>tokenContract\<close> counts as present when it is
  truthy, whatever it is, and its two fields are what reading \<^verbatim>\<open>address\<close> and
  \<^verbatim>\<open>name\<close> of it gives.\<close>

definition str_field :: "(string \<times> json) list \<Rightarrow> string \<Rightarrow> string" where
  "str_field kvs k = (case map_of kvs k of Some (JStr s) \<Rightarrow> s | _ \<Rightarrow> [])"

definition name_field :: "(string \<times> json) list \<Rightarrow> string \<Rightarrow> string option" where
  "name_field kvs k = (case map_of kvs k of Some (JStr s) \<Rightarrow> Some s | _ \<Rightarrow> None)"

text \<open>Reading a property of a value that is neither \<^verbatim>\<open>null\<close> nor
  \<^verbatim>\<open>undefined\<close>.\<close>

definition prop_of :: "json \<Rightarrow> string \<Rightarrow> json" where
  "prop_of v k = (case get_prop v k of Inl e \<Rightarrow> JUndefined | Inr x \<Rightarrow> x)"

definition contract_field :: "(string \<times> json) list \<Rightarrow> TokenContract option" where
  "contract_field kvs =
     (case map_of kvs ''tokenContract'' of
        None \<Rightarrow> None
      | Some tc \<Rightarrow>
          if truthy tc then Some \<lparr>address = prop_of tc ''address'', name = prop_of tc ''name''\<rparr>
          else None)"

definition fields_of :: "json \<Rightarrow> (string \<times> json) list" where
  "fields_of v = (case v of JObj kvs \<Rightarrow> kvs | _ \<Rightarrow> [])"

definition as_X402PaymentRequired :: "json \<Rightarrow> X402PaymentRequired" where
  "as_X402PaymentRequired v =
     (let kvs = fields_of v in
      \<lparr>maxAmountRequired = str_field kvs ''maxAmountRequired'',
       resource = str_field kvs ''resource'',
       payTo = str_field kvs ''payTo'',
       network = str_field kvs ''network'',
       nonce = str_field kvs ''nonce'',
       expiresAt = str_field kvs ''expiresAt'',
       memo = name_field kvs ''memo'',
       tokenType = name_field kvs ''tokenType'',
       tokenContract = contract_field kvs\<rparr>)"

text \<open>\<^verbatim>\<open>paymentRequest.tokenType || 'STX'\<close> as the value of a header: the value the
  body holds, of whatever type, when it is truthy.\<close>

definition token_type_header :: "json \<Rightarrow> json" where
  "token_type_header body =
     (let v = prop_of body ''tokenType'' in if truthy v then v else JStr ''STX'')"

text \<open>\<^verbatim>\<open>new Date(expiresAt) < new Date()\<close>. The parser of date strings is the
  platform's and is a parameter: it gives the time in milliseconds, or nothing for an
  invalid date, whose time value NaN is below no number.\<close>

definition is_expired :: "(string \<Rightarrow> int option) \<Rightarrow> string \<Rightarrow> int \<Rightarrow> bool" where
  "is_expired parse_date s now = (case parse_date s of None \<Rightarrow> False | Some t \<Rightarrow> t < now)"

text \<open>Headers: what is stored under each name. The declared type of a value is string;
  the token type header holds what the body held.\<close>

type_synonym header_map = "string \<rightharpoonup> json"

record http_request =
  url :: string
  http_method :: string
  data :: json
  headers :: header_map

text \<open>What the call cannot decide: the answer to its \<open>n\<close>-th request (the data of
  a successful response, or what the HTTP client throws), the clock when that answer
  is handled, and the date parser.\<close>

record world =
  http :: "nat \<Rightarrow> http_request \<Rightarrow> thrown + json"
  clock :: "nat \<Rightarrow> int"
  Date_parse :: "string \<Rightarrow> int option"

text \<open>What the call does to the outside, in order: the requests it issues, and the
  calls of the signer, each with the request signed and the clock reading of the
  expiration check before it.\<close>

record effects =
  sent :: "http_request list"
  signer_calls :: "(X402PaymentRequired \<times> int) list"

definition no_effects :: effects where
  "no_effects = \<lparr>sent = [], signer_calls = []\<rparr>"

text \<open>\<^verbatim>\<open>`Payment signing failed: ${signResult.error}`\<close>\<close>

definition signing_failed :: "string option \<Rightarrow> thrown" where
  "signing_failed e =
     Error PlainError (''Payment signing failed: '' @ (case e of None \<Rightarrow> ''undefined'' | Some m \<Rightarrow> m))"

text \<open>The \<^verbatim>\<open>catch\<close> block on a 402: validate, check the expiration, sign. It throws
  (\<open>Inl\<close>), or gives the signed transaction and the request for the next
  iteration. The clock is read for the answer to the last request sent.\<close>

definition on_payment_required ::
  "sdk \<Rightarrow> X402PaymentClient \<Rightarrow> world \<Rightarrow> json \<Rightarrow> effects
     \<Rightarrow> (thrown + string \<times> json) \<times> effects" where
  "on_payment_required k c w body fx =
     (case isValidPaymentRequest_client body of
        Inl e \<Rightarrow> (Inl e, fx)
      | Inr False \<Rightarrow> (Inl (Error PlainError ''Invalid x402 payment request from server''), fx)
      | Inr True \<Rightarrow>
          let paymentRequest = as_X402PaymentRequired body;
              now = clock w (length (sent fx) - 1)
          in if is_expired (Date_parse w) (expiresAt paymentRequest) now
             then (Inl (Error PlainError ''Payment request has expired''), fx)
             else
               let fx' = fx\<lparr>signer_calls := signer_calls fx @ [(paymentRequest, now)]\<rparr>
               in case signPayment k c paymentRequest of
                    Inl e \<Rightarrow> (Inl e, fx')
                  | Inr signResult \<Rightarrow>
                      if \<not> success signResult then (Inl (signing_failed (error signResult)), fx')
                      else (Inr (signedTransaction signResult, body), fx'))"

text \<open>The headers of an iteration: the caller's, with the two payment headers when a
  previous iteration left a (non-empty) signed transaction and its request. The
  request kept in \<^verbatim>\<open>lastPaymentRequest\<close> is the body of the 402 itself, an object
  once validated.\<close>

definition requestHeaders ::
  "header_map \<Rightarrow> string option \<Rightarrow> json option \<Rightarrow> header_map" where
  "requestHeaders hs lastSignedPayment lastPaymentRequest =
     (case (lastSignedPayment, lastPaymentRequest) of
        (Some tx, Some body) \<Rightarrow>
          if tx \<noteq> [] then hs(''X-PAYMENT'' \<mapsto> JStr tx,
                             ''X-PAYMENT-TOKEN-TYPE'' \<mapsto> token_type_header body)
          else hs
      | _ \<Rightarrow> hs)"

definition iteration_request ::
  "http_request \<Rightarrow> string option \<Rightarrow> json option \<Rightarrow> http_request" where
  "iteration_request req lastSignedPayment lastPaymentRequest =
     req\<lparr>headers := requestHeaders (headers req) lastSignedPayment lastPaymentRequest\<rparr>"

text \<open>\<^verbatim>\<open>error.response && error.response.status === 402\<close>: the body of the 402
  response, if the thrown value is one.\<close>

definition payment_required_body :: "thrown \<Rightarrow> json option" where
  "payment_required_body e =
     (case e of
        AxiosError m (Some (status, body)) \<Rightarrow> if status = 402 then Some body else None
      | _ \<Rightarrow> None)"

text \<open>The \<^verbatim>\<open>while (attempt <= maxRetries)\<close> loop, with its three variables.\<close>

function requestWithPayment_loop ::
  "sdk \<Rightarrow> X402PaymentClient \<Rightarrow> world \<Rightarrow> http_request \<Rightarrow> int
     \<Rightarrow> int \<Rightarrow> string option \<Rightarrow> json option \<Rightarrow> effects
     \<Rightarrow> (thrown + json) \<times> effects" where
  "requestWithPayment_loop k c w req maxRetries attempt lastSignedPayment lastPaymentRequest fx =
     (if attempt \<le> maxRetries then
        let r = iteration_request req lastSignedPayment lastPaymentRequest;
            fx1 = fx\<lparr>sent := sent fx @ [r]\<rparr>
        in case http w (length (sent fx)) r of
             Inr received \<Rightarrow> (Inr received, fx1)
           | Inl err \<Rightarrow>
               (case payment_required_body err of
                  None \<Rightarrow> (Inl err, fx1)
                | Some body \<Rightarrow>
                    (case on_payment_required k c w body fx1 of
                       (Inl e, fx2) \<Rightarrow> (Inl e, fx2)
                     | (Inr (tx, pr), fx2) \<Rightarrow>
                         requestWithPayment_loop k c w req maxRetries (attempt + 1)
                           (Some tx) (Some pr) fx2))
      else (Inl (Error PlainError ''Max retries exceeded for payment request''), fx))"
  by pat_completeness auto
termination
  by (relation "measure (\<lambda>(k, c, w, req, maxRetries, attempt, rest). nat (maxRetries + 1 - attempt))")
     auto

declare requestWithPayment_loop.simps [simp del]

text \<open>The options of the call, with their defaults: \<^verbatim>\<open>method = 'GET'\<close>,
  \<^verbatim>\<open>headers = {}\<close>, \<^verbatim>\<open>maxRetries = 1\<close>. The ceiling is a count: an
  integer, of either sign.\<close>

record request_options =
  opt_method :: "string option"
  opt_data :: json
  opt_headers :: "header_map option"
  opt_maxRetries :: "int option"

definition base_request :: "string \<Rightarrow> request_options \<Rightarrow> http_request" where
  "base_request u options =
     \<lparr>url = u,
      http_method = (case opt_method options of None \<Rightarrow> ''GET'' | Some m \<Rightarrow> m),
      data = opt_data options,
      headers = (case opt_headers options of None \<Rightarrow> Map.empty | Some hs \<Rightarrow> hs)\<rparr>"

definition maxRetries_of :: "request_options \<Rightarrow> int" where
  "maxRetries_of options = (case opt_maxRetries options of None \<Rightarrow> 1 | Some m \<Rightarrow> m)"

definition requestWithPayment ::
  "sdk \<Rightarrow> X402PaymentClient \<Rightarrow> world \<Rightarrow> string \<Rightarrow> request_options \<Rightarrow> (thrown + json) \<times> effects" where
  "requestWithPayment k c w u options =
     requestWithPayment_loop k c w (base_request u options) (maxRetries_of options)
       0 None None no_effects"

text \<open>For stating what a run meets: the body of the 402 that answers the \<open>n\<close>-th
  request, if it is answered by one; a body that passes the validator, is not
  expired when the answer to the \<open>n\<close>-th request is handled, and is signed with
  success; and the transaction signed for it.\<close>

definition answer_body :: "world \<Rightarrow> nat \<Rightarrow> http_request \<Rightarrow> json option" where
  "answer_body w n r = (case http w n r of Inl e \<Rightarrow> payment_required_body e | Inr d \<Rightarrow> None)"

definition payable :: "sdk \<Rightarrow> X402PaymentClient \<Rightarrow> world \<Rightarrow> nat \<Rightarrow> json \<Rightarrow> bool" where
  "payable k c w n body =
     (isValidPaymentRequest_client body = Inr True \<and>
      \<not> is_expired (Date_parse w) (expiresAt (as_X402PaymentRequired body)) (clock w n) \<and>
      (case signPayment k c (as_X402PaymentRequired body) of
         Inl e \<Rightarrow> False | Inr r \<Rightarrow> success r))"

definition signed_tx :: "sdk \<Rightarrow> X402PaymentClient \<Rightarrow> json \<Rightarrow> string" where
  "signed_tx k c body =
     (case signPayment k c (as_X402PaymentRequired body) of
        Inl e \<Rightarrow> [] | Inr r \<Rightarrow> signedTransaction r)"

subsection \<open>Unfolding the loop\<close>

lemma loop_exit:
  "\<not> a \<le> m \<Longrightarrow> requestWithPayment_loop k c w req m a lsp lpr fx =
     (Inl (Error PlainError ''Max retries exceeded for payment request''), fx)"
  by (simp add: requestWithPayment_loop.simps)

lemma loop_answered:
  assumes "a \<le> m" and "http w (length (sent fx)) (iteration_request req lsp lpr) = Inr d"
  shows "requestWithPayment_loop k c w req m a lsp lpr fx =
     (Inr d, fx\<lparr>sent := sent fx @ [iteration_request req lsp lpr]\<rparr>)"
  using assms
  by (subst requestWithPayment_loop.simps) (simp add: Let_def)

lemma loop_rethrow:
  assumes "a \<le> m" and "http w (length (sent fx)) (iteration_request req lsp lpr) = Inl err"
    and "payment_required_body err = None"
  shows "requestWithPayment_loop k c w req m a lsp lpr fx =
     (Inl err, fx\<lparr>sent := sent fx @ [iteration_request req lsp lpr]\<rparr>)"
  using assms
  by (subst requestWithPayment_loop.simps) (simp add: Let_def)

lemma loop_402:
  assumes "a \<le> m" and "http w (length (sent fx)) (iteration_request req lsp lpr) = Inl err"
    and "payment_required_body err = Some body"
  shows "requestWithPayment_loop k c w req m a lsp lpr fx =
     (case on_payment_required k c w body (fx\<lparr>sent := sent fx @ [iteration_request req lsp lpr]\<rparr>) of
        (Inl e, fx2) \<Rightarrow> (Inl e, fx2)
      | (Inr (tx, pr), fx2) \<Rightarrow>
          requestWithPayment_loop k c w req m (a + 1) (Some tx) (Some pr) fx2)"
  using assms
  by (subst requestWithPayment_loop.simps) (simp add: Let_def)

lemma on_payment_required_sent:
  "sent (snd (on_payment_required k c w body fx)) = sent fx"
  by (simp add: on_payment_required_def Let_def split: sum.splits bool.splits)

text \<open>A property of the effects that every request sent and every pass through the
  \<^verbatim>\<open>catch\<close> block keep holds when the loop ends.\<close>

lemma loop_invariant:
  assumes "I fx"
    and "\<And>fx r. I fx \<Longrightarrow> I (fx\<lparr>sent := sent fx @ [r]\<rparr>)"
    and "\<And>body fx. I fx \<Longrightarrow> I (snd (on_payment_required k c w body fx))"
  shows "I (snd (requestWithPayment_loop k c w req m a lsp lpr fx))"
  using assms
proof (induction k c w req m a lsp lpr fx rule: requestWithPayment_loop.induct)
  case (1 k c w req m a lsp lpr fx)
  define r where "r = iteration_request req lsp lpr"
  define fx1 where "fx1 = fx\<lparr>sent := sent fx @ [r]\<rparr>"
  show ?case
  proof (cases "a \<le> m")
    case False
    then show ?thesis using "1.prems"(1) by (simp add: loop_exit)
  next
    case True
    have I1: "I fx1" using "1.prems"(1,2) by (simp add: fx1_def)
    show ?thesis
    proof (cases "http w (length (sent fx)) r")
      case (Inr d)
      then show ?thesis using True I1 by (simp add: loop_answered r_def fx1_def)
    next
      case (Inl err)
      note http = this
      show ?thesis
      proof (cases "payment_required_body err")
        case None
        then show ?thesis using True http I1 by (simp add: loop_rethrow r_def fx1_def)
      next
        case (Some body)
        obtain res fx2 where opr: "on_payment_required k c w body fx1 = (res, fx2)"
          by (cases "on_payment_required k c w body fx1")
        have I2: "I fx2" using "1.prems"(3) [OF I1, of body] opr by simp
        show ?thesis
        proof (cases res)
          case (Inl e)
          then show ?thesis using True http Some opr I2
            by (simp add: loop_402 r_def fx1_def)
        next
          case (Inr p)
          obtain tx pr where p: "p = (tx, pr)" by (cases p)
          have "I (snd (requestWithPayment_loop k c w req m (a + 1) (Some tx) (Some pr) fx2))"
            using "1.IH" [OF True r_def fx1_def http Some opr [symmetric] Inr p [symmetric] I2]
              "1.prems"(2,3)
            by simp
          then show ?thesis using True http Some opr Inr p
            by (simp add: loop_402 r_def fx1_def)
        qed
      qed
    qed
  qed
qed

text \<open>Each iteration sends one request and the counter grows with each iteration that
  goes on: the requests sent are bounded by the attempts left.\<close>

lemma loop_bound:
  "length (sent (snd (requestWithPayment_loop k c w req m a lsp lpr fx)))
     \<le> length (sent fx) + nat (m + 1 - a)"
proof (induction k c w req m a lsp lpr fx rule: requestWithPayment_loop.induct)
  case (1 k c w req m a lsp lpr fx)
  define r where "r = iteration_request req lsp lpr"
  define fx1 where "fx1 = fx\<lparr>sent := sent fx @ [r]\<rparr>"
  show ?case
  proof (cases "a \<le> m")
    case False
    then show ?thesis by (simp add: loop_exit)
  next
    case True
    have len1: "length (sent fx1) = length (sent fx) + 1" by (simp add: fx1_def)
    show ?thesis
    proof (cases "http w (length (sent fx)) r")
      case (Inr d)
      then show ?thesis using True by (simp add: loop_answered r_def)
    next
      case (Inl err)
      note http = this
      show ?thesis
      proof (cases "payment_required_body err")
        case None
        then show ?thesis using True http by (simp add: loop_rethrow r_def)
      next
        case (Some body)
        obtain res fx2 where opr: "on_payment_required k c w body fx1 = (res, fx2)"
          by (cases "on_payment_required k c w body fx1")
        have len2: "length (sent fx2) = length (sent fx) + 1"
          using on_payment_required_sent [of k c w body fx1] opr len1 by simp
        show ?thesis
        proof (cases res)
          case (Inl e)
          then show ?thesis using True http Some opr len2
            by (simp add: loop_402 r_def fx1_def)
        next
          case (Inr p)
          obtain tx pr where p: "p = (tx, pr)" by (cases p)
          have "length (sent (snd (requestWithPayment_loop k c w req m (a + 1) (Some tx) (Some pr) fx2)))
              \<le> length (sent fx2) + nat (m + 1 - (a + 1))"
            using "1.IH" [OF True r_def fx1_def http Some opr [symmetric] Inr p [symmetric]] .
          then show ?thesis using True http Some opr len2 Inr p
            by (simp add: loop_402 r_def fx1_def)
        qed
      qed
    qed
  qed
qed

lemma on_payment_required_payable:
  assumes "payable k c w (length (sent fx) - 1) body"
  shows "on_payment_required k c w body fx =
     (Inr (signed_tx k c body, body),
      fx\<lparr>signer_calls := signer_calls fx @
            [(as_X402PaymentRequired body, clock w (length (sent fx) - 1))]\<rparr>)"
  using assms
  by (auto simp: payable_def on_payment_required_def signed_tx_def Let_def split: sum.splits)

lemma answer_bodyD:
  "answer_body w n r = Some body \<Longrightarrow>
     \<exists>err. http w n r = Inl err \<and> payment_required_body err = Some body"
  by (auto simp: answer_body_def split: sum.splits)

text \<open>With a ceiling of one retry: a first 402 that is paid and a second 402. The run
  ends by throwing after exactly two requests, and by the error of the exhausted
  retries when the second 402 is payable as well.\<close>

lemma scenario_B:
  assumes m: "maxRetries_of options = 1"
    and first: "answer_body w 0 (iteration_request (base_request u options) None None) = Some body1"
    and pay1: "payable k c w 0 body1"
    and second: "answer_body w 1 (iteration_request (base_request u options)
                   (Some (signed_tx k c body1)) (Some body1)) = Some body2"
  shows "isl (fst (requestWithPayment k c w u options))"
    and "length (sent (snd (requestWithPayment k c w u options))) = 2"
    and "payable k c w 1 body2 \<Longrightarrow>
         fst (requestWithPayment k c w u options) =
           Inl (Error PlainError ''Max retries exceeded for payment request'')"
proof -
  let ?req = "base_request u options"
  let ?r0 = "iteration_request ?req None None"
  let ?pr1 = "as_X402PaymentRequired body1"
  let ?r1 = "iteration_request ?req (Some (signed_tx k c body1)) (Some body1)"
  let ?fx1 = "no_effects\<lparr>sent := sent no_effects @ [?r0]\<rparr>"
  let ?fx2 = "?fx1\<lparr>signer_calls := signer_calls ?fx1 @ [(?pr1, clock w 0)]\<rparr>"
  let ?fx3 = "?fx2\<lparr>sent := sent ?fx2 @ [?r1]\<rparr>"
  obtain e1 where e1: "http w 0 ?r0 = Inl e1" "payment_required_body e1 = Some body1"
    using answer_bodyD [OF first] by blast
  obtain e2 where e2: "http w 1 ?r1 = Inl e2" "payment_required_body e2 = Some body2"
    using answer_bodyD [OF second] by blast
  have opr1: "on_payment_required k c w body1 ?fx1 = (Inr (signed_tx k c body1, body1), ?fx2)"
    using pay1 by (subst on_payment_required_payable) (simp_all add: no_effects_def)
  have step1: "requestWithPayment k c w u options =
      requestWithPayment_loop k c w ?req 1 1 (Some (signed_tx k c body1)) (Some body1) ?fx2"
    unfolding requestWithPayment_def m
    using e1 opr1 by (subst loop_402 [where err = e1 and body = body1]) (simp_all add: no_effects_def)
  have len2: "length (sent ?fx2) = 1" by (simp add: no_effects_def)
  have step2: "requestWithPayment_loop k c w ?req 1 1 (Some (signed_tx k c body1)) (Some body1) ?fx2 =
      (case on_payment_required k c w body2 ?fx3 of
         (Inl e, fx4) \<Rightarrow> (Inl e, fx4)
       | (Inr (tx, pr), fx4) \<Rightarrow> requestWithPayment_loop k c w ?req 1 (1 + 1) (Some tx) (Some pr) fx4)"
    using e2 len2 by (subst loop_402 [where err = e2 and body = body2]) simp_all
  obtain res fx4 where opr2: "on_payment_required k c w body2 ?fx3 = (res, fx4)"
    by (cases "on_payment_required k c w body2 ?fx3")
  have sent4: "sent fx4 = sent ?fx3"
    using on_payment_required_sent [of k c w body2 ?fx3] opr2 by simp
  have final: "requestWithPayment k c w u options =
      (case res of Inl e \<Rightarrow> (Inl e, fx4)
       | Inr p \<Rightarrow> (Inl (Error PlainError ''Max retries exceeded for payment request''), fx4))"
    unfolding step1 step2 opr2 by (auto simp: loop_exit split: sum.splits)
  show "isl (fst (requestWithPayment k c w u options))"
    unfolding final by (simp split: sum.splits)
  show "length (sent (snd (requestWithPayment k c w u options))) = 2"
    unfolding final using sent4 by (simp add: no_effects_def split: sum.splits)
  show "fst (requestWithPayment k c w u options) =
           Inl (Error PlainError ''Max retries exceeded for payment request'')"
    if "payable k c w 1 body2"
  proof -
    have "on_payment_required k c w body2 ?fx3 =
        (Inr (signed_tx k c body2, body2),
         ?fx3\<lparr>signer_calls := signer_calls ?fx3 @ [(as_X402PaymentRequired body2, clock w 1)]\<rparr>)"
      using that by (subst on_payment_required_payable) (simp_all add: no_effects_def)
    then show ?thesis unfolding final using opr2 by auto
  qed
qed


text \<open>A world for evaluating the loop: every request is answered by the same 402,
  whose offer expires on 2030-01-01 (1893456000000 ms), and the clock stands at
  1800000000000 ms.\<close>

definition offer :: json where
  "offer = JObj [(''maxAmountRequired'', JStr ''1000000''), (''resource'', JStr ''/resource''),
     (''payTo'', JStr ''ST1PQHQKV0RJXZFY1DGX8MNSNYVE3VGZJSRTPGZGM''), (''network'', JStr ''testnet''),
     (''nonce'', JStr ''abc123''), (''expiresAt'', JStr ''2030-01-01T00:00:00.000Z'')]"

definition parse_2030 :: "string \<Rightarrow> int option" where
  "parse_2030 s = (if s = ''2030-01-01T00:00:00.000Z'' then Some 1893456000000 else None)"

definition always_402 :: world where
  "always_402 =
     \<lparr>http = (\<lambda>n r. Inl (AxiosError ''Request failed with status code 402'' (Some (402, offer)))),
      clock = (\<lambda>n. 1800000000000),
      Date_parse = parse_2030\<rparr>"

definition test_client :: X402PaymentClient where
  "test_client = \<lparr>client_network = ''testnet'', privateKey = ''k1''\<rparr>"

definition default_options :: request_options where
  "default_options = \<lparr>opt_method = None, opt_data = JUndefined, opt_headers = None, opt_maxRetries = None\<rparr>"

lemma offer_valid: "isValidPaymentRequest_client offer = Inr True"
  by (simp add: isValidPaymentRequest_client_non_null offer_def has_string_def)

lemma offer_request: "as_X402PaymentRequired offer =
   \<lparr>maxAmountRequired = ''1000000'', resource = ''/resource'',
    payTo = ''ST1PQHQKV0RJXZFY1DGX8MNSNYVE3VGZJSRTPGZGM'', network = ''testnet'',
    nonce = ''abc123'', expiresAt = ''2030-01-01T00:00:00.000Z'',
    memo = None, tokenType = None, tokenContract = None\<rparr>"
  by (simp add: as_X402PaymentRequired_def offer_def fields_of_def str_field_def name_field_def contract_field_def)

lemma offer_signed: "signPayment stub_sdk test_client (as_X402PaymentRequired offer) = Inr (signed ''00aa'' ''STk1'')"
  by (simp add: offer_request signPayment_def signSTXTransfer_def try_catch_def bind_thrown_def
      stub_sdk_def test_client_def payment_details_def or_default_def BigInt_eval)

lemma offer_payable: "payable stub_sdk test_client always_402 n offer"
  by (simp add: payable_def offer_valid offer_signed signed_def always_402_def)
     (simp add: offer_request is_expired_def parse_2030_def)

text \<open>
  C1. A call of \<^verbatim>\<open>requestWithPayment\<close> with \<^verbatim>\<open>maxRetries = m\<close> issues at most
  \<open>m + 1\<close> requests (none when \<open>m\<close> is negative: the loop runs while
  \<^verbatim>\<open>attempt <= maxRetries\<close>, from 0, and the counter grows only after a signing
  that succeeded on a 402). With \<open>m = 1\<close>, when the first answer is a 402 with a
  valid, unexpired payment request that is signed with success and the second answer
  is a 402 again, the call ends by throwing and exactly two requests have been sent;
  when the second 402 is again valid, unexpired and signed, the error thrown is
  \<^verbatim>\<open>Max retries exceeded for payment request\<close>.
\<close>

theorem C1_requests_bounded:
  "length (sent (snd (requestWithPayment k c w u options))) \<le> nat (maxRetries_of options + 1) \<and>
   (maxRetries_of options = 1 \<longrightarrow>
    answer_body w 0 (iteration_request (base_request u options) None None) = Some body1 \<longrightarrow>
    payable k c w 0 body1 \<longrightarrow>
    answer_body w 1 (iteration_request (base_request u options)
        (Some (signed_tx k c body1)) (Some body1)) = Some body2 \<longrightarrow>
      isl (fst (requestWithPayment k c w u options)) \<and>
      length (sent (snd (requestWithPayment k c w u options))) = 2 \<and>
      (payable k c w 1 body2 \<longrightarrow>
         fst (requestWithPayment k c w u options) =
           Inl (Error PlainError ''Max retries exceeded for payment request'')))"
proof -
  have "length (sent (snd (requestWithPayment k c w u options))) \<le> nat (maxRetries_of options + 1)"
    using loop_bound [of k c w "base_request u options" "maxRetries_of options" 0 None None no_effects]
    by (simp add: requestWithPayment_def no_effects_def)
  then show ?thesis
    using scenario_B [of options w u body1 k c body2] by blast
qed

theorem C1_requests_bounded_witness:
  "fst (requestWithPayment stub_sdk test_client always_402 ''/resource'' default_options)
     = Inl (Error PlainError ''Max retries exceeded for payment request'')
   \<and> length (sent (snd (requestWithPayment stub_sdk test_client always_402 ''/resource'' default_options))) = 2"
  using C1_requests_bounded [of stub_sdk test_client always_402 "''/resource''" default_options offer offer]
    offer_payable
  by (simp add: maxRetries_of_def default_options_def answer_body_def always_402_def payment_required_body_def)


section \<open>The axios interceptor (V1)\<close>

text \<open>\<^verbatim>\<open>signPayment\<close> of the interceptor: it returns the serialised transaction and
  throws on every failure.\<close>

definition signPayment_interceptor :: "sdk \<Rightarrow> X402PaymentRequired \<Rightarrow> StacksAccount \<Rightarrow> thrown + string" where
  "signPayment_interceptor k paymentRequest account =
     bind_thrown (BigInt (maxAmountRequired paymentRequest)) (\<lambda>amt.
       let tt = or_default (tokenType paymentRequest) ''STX'';
           net = network paymentRequest;
           m = take 34 (nonce paymentRequest)
       in if tt = ''sBTC'' \<or> tt = ''USDCx'' then
            (case tokenContract paymentRequest of
               None \<Rightarrow> Inl (Error PlainError (''Token contract required for '' @ tt @ '' payments''))
             | Some tc \<Rightarrow>
                 bind_thrown (uintCV k (toString amt)) (\<lambda>a.
                 bind_thrown (principalCV k (account_address account)) (\<lambda>s.
                 bind_thrown (principalCV k (payTo paymentRequest)) (\<lambda>r.
                   makeContractCall k
                     \<lparr>contractAddress = address tc,
                      contractName = name tc,
                      functionName = ''transfer'',
                      functionArgs = [a, s, r, if m \<noteq> [] then SomeCV (BufferCV m) else NoneCV],
                      c_senderKey = account_privateKey account,
                      c_network = net,
                      postConditionMode = ''allow'',
                      c_nonce = None,
                      c_fee = None\<rparr>))))
          else makeSTXTokenTransfer k
                 \<lparr>o_recipient = payTo paymentRequest,
                  o_amount = amt,
                  o_senderKey = account_privateKey account,
                  o_network = net,
                  o_memo = m,
                  o_nonce = None,
                  o_fee = None\<rparr>)"

text \<open>The error the HTTP client hands to the interceptor. A request configuration is
  an object: \<open>config\<close> is its identity, and the headers it holds are in the state
  below, where the interceptor changes them in place.\<close>

record axios_error =
  config :: nat
  message :: string
  response :: "(nat \<times> json) option"

text \<open>The module-level \<^verbatim>\<open>WeakSet\<close> of the request objects for which a payment was
  attempted (an object the program still holds is never dropped from it), and the calls
  of the signer made so far: for which request object, on which payment request, at
  which clock reading of the expiration check. With them, the request configuration
  objects of the program: how many were created (they are numbered from 0), the headers
  each holds, and the requests put on the wire, each with the object it was made from
  and its headers.\<close>

record interceptor_state =
  paymentAttempted :: "nat set"
  signings :: "(nat \<times> X402PaymentRequired \<times> int) list"
  allocated :: nat
  config_headers :: "nat \<Rightarrow> header_map option"
  dispatched :: "(nat \<times> header_map) list"

text \<open>How the handler ends: it rejects, or it returns
  \<^verbatim>\<open>axiosInstance.request(originalRequest)\<close>.\<close>

datatype outcome = Rejected thrown | Reissued nat

text \<open>\<^verbatim>\<open>error.response?.status !== 402\<close> is the negation of:\<close>

definition is_402 :: "axios_error \<Rightarrow> bool" where
  "is_402 err = (case response err of None \<Rightarrow> False | Some (status, body) \<Rightarrow> status = 402)"

definition response_data :: "axios_error \<Rightarrow> json" where
  "response_data err = (case response err of None \<Rightarrow> JUndefined | Some (status, body) \<Rightarrow> body)"

text \<open>\<^verbatim>\<open>originalRequest.headers = originalRequest.headers || {}\<close> and the two
  assignments after it.\<close>

definition attach_payment ::
  "nat \<Rightarrow> string \<Rightarrow> json \<Rightarrow> (nat \<Rightarrow> header_map option) \<Rightarrow> (nat \<Rightarrow> header_map option)" where
  "attach_payment originalRequest signedTx body hs =
     hs(originalRequest :=
          Some ((case hs originalRequest of None \<Rightarrow> Map.empty | Some h \<Rightarrow> h)
                  (''X-PAYMENT'' \<mapsto> JStr signedTx,
                   ''X-PAYMENT-TOKEN-TYPE'' \<mapsto> token_type_header body)))"

text \<open>The error handler that \<^verbatim>\<open>wrapAxiosWithPaymentV1\<close> installs, for the instance
  wrapped with \<open>account\<close>, run at time \<open>now\<close>.\<close>

definition onRejected ::
  "sdk \<Rightarrow> (string \<Rightarrow> int option) \<Rightarrow> StacksAccount \<Rightarrow> int \<Rightarrow> axios_error \<Rightarrow> interceptor_state
     \<Rightarrow> outcome \<times> interceptor_state" where
  "onRejected k parse_date account now err st =
     (let originalRequest = config err in
      if \<not> is_402 err then (Rejected (AxiosError (message err) (response err)), st)
      else if originalRequest \<in> paymentAttempted st
      then (Rejected (Error PlainError ''Payment already attempted for this request''), st)
      else
        let st1 = st\<lparr>paymentAttempted := insert originalRequest (paymentAttempted st)\<rparr>;
            body = response_data err
        in case isValidPaymentRequest body of
             Inl e \<Rightarrow> (Rejected e, st1)
           | Inr False \<Rightarrow>
               (Rejected (Error PlainError ''Invalid x402 payment request from server''), st1)
           | Inr True \<Rightarrow>
               let paymentRequest = as_X402PaymentRequired body in
               if is_expired parse_date (expiresAt paymentRequest) now
               then (Rejected (Error PlainError ''Payment request has expired''), st1)
               else
                 let st2 = st1\<lparr>signings := signings st1 @ [(originalRequest, paymentRequest, now)]\<rparr>
                 in case signPayment_interceptor k paymentRequest account of
                      Inl paymentError \<Rightarrow>
                        (Rejected (Error PlainError
                           (''Payment signing failed: '' @ message_or ''Unknown error'' paymentError)),
                         st2)
                    | Inr signedTx \<Rightarrow>
                        (Reissued originalRequest,
                         st2\<lparr>config_headers :=
                               attach_payment originalRequest signedTx body
                                 (config_headers st2)\<rparr>))"

subsection \<open>The wrapped client\<close>

text \<open>
  Modelled from axios, a dependency whose code is not under src/:
  \<^verbatim>\<open>axiosInstance.request(config)\<close> merges the configuration it is given with the
  defaults of the instance into a new object (\<^verbatim>\<open>mergeConfig\<close>), whose headers are a
  copy of the given ones (the default headers of the instance are left out here), and
  sends that. The data of a 2xx response is the result. Any other response rejects
  with an error whose \<^verbatim>\<open>config\<close> is the new object, and the rejection goes to the
  response interceptor; when the handler returns
  \<^verbatim>\<open>axiosInstance.request(originalRequest)\<close>, the same happens again with the object
  the handler was given. What the HTTP client throws that is not its own error has no
  response, and the handler passes it on.

  The answers come from a \<open>world\<close> as above; the URL, the method and the data of
  the request are those of \<open>base\<close>. Nothing bounds the number of rounds, so the
  function takes the number of requests it may send and gives nothing when these do
  not suffice.
\<close>

definition headers_of :: "interceptor_state \<Rightarrow> nat \<Rightarrow> header_map" where
  "headers_of st c = (case config_headers st c of None \<Rightarrow> Map.empty | Some h \<Rightarrow> h)"

text \<open>\<^verbatim>\<open>mergeConfig\<close> and the sending: a new object, numbered \<open>allocated st\<close>, with
  a copy of the headers of \<open>c\<close>, goes on the wire.\<close>

definition send_merged :: "nat \<Rightarrow> interceptor_state \<Rightarrow> interceptor_state" where
  "send_merged c st =
     st\<lparr>allocated := Suc (allocated st),
        config_headers := (config_headers st)(allocated st := Some (headers_of st c)),
        dispatched := dispatched st @ [(allocated st, headers_of st c)]\<rparr>"

fun axios_request ::
  "sdk \<Rightarrow> world \<Rightarrow> StacksAccount \<Rightarrow> http_request \<Rightarrow> nat \<Rightarrow> nat \<Rightarrow> interceptor_state
     \<Rightarrow> ((thrown + json) \<times> interceptor_state) option" where
  "axios_request k w account base 0 c st = None"
| "axios_request k w account base (Suc fuel) c st =
     (let merged = allocated st;
          n = length (dispatched st);
          st1 = send_merged c st
      in case http w n (base\<lparr>headers := headers_of st c\<rparr>) of
           Inr received \<Rightarrow> Some (Inr received, st1)
         | Inl (AxiosError m resp) \<Rightarrow>
             (case onRejected k (Date_parse w) account (clock w n)
                     \<lparr>config = merged, message = m, response = resp\<rparr> st1 of
                (Rejected e, st2) \<Rightarrow> Some (Inl e, st2)
              | (Reissued again, st2) \<Rightarrow> axios_request k w account base fuel again st2)
         | Inl e \<Rightarrow> Some (Inl e, st1))"

text \<open>A thrown value is a 402 that the handler pays, at the \<open>n\<close>-th request: its body
  is valid, not expired at that time, and signed.\<close>

definition pays :: "sdk \<Rightarrow> world \<Rightarrow> StacksAccount \<Rightarrow> nat \<Rightarrow> thrown \<Rightarrow> bool" where
  "pays k w account n e =
     (case e of
        AxiosError m (Some (status, body)) \<Rightarrow>
          status = 402 \<and> isValidPaymentRequest body = Inr True \<and>
          \<not> is_expired (Date_parse w) (expiresAt (as_X402PaymentRequired body)) (clock w n) \<and>
          \<not> isl (signPayment_interceptor k (as_X402PaymentRequired body) account)
      | _ \<Rightarrow> False)"

text \<open>The marked objects are among those created.\<close>

definition marks_allocated :: "interceptor_state \<Rightarrow> bool" where
  "marks_allocated st = (\<forall>c \<in> paymentAttempted st. c < allocated st)"

subsection \<open>One step of the handler\<close>

lemma onRejected_not_402:
  "\<not> is_402 err \<Longrightarrow>
     onRejected k p account now err st = (Rejected (AxiosError (message err) (response err)), st)"
  by (simp add: onRejected_def)

lemma onRejected_marked:
  "is_402 err \<Longrightarrow> config err \<in> paymentAttempted st \<Longrightarrow>
     onRejected k p account now err st =
       (Rejected (Error PlainError ''Payment already attempted for this request''), st)"
  by (simp add: onRejected_def)

lemma onRejected_mono:
  "paymentAttempted st \<subseteq> paymentAttempted (snd (onRejected k p account now err st))"
  by (auto simp: onRejected_def Let_def split: sum.splits bool.splits)

lemma onRejected_marks:
  "is_402 err \<Longrightarrow> config err \<in> paymentAttempted (snd (onRejected k p account now err st))"
  by (auto simp: onRejected_def Let_def split: sum.splits bool.splits)

lemma onRejected_marked_only:
  "paymentAttempted (snd (onRejected k p account now err st)) \<subseteq> insert (config err) (paymentAttempted st)"
  by (auto simp: onRejected_def Let_def split: sum.splits bool.splits if_splits)

lemma onRejected_allocated:
  "allocated (snd (onRejected k p account now err st)) = allocated st
   \<and> dispatched (snd (onRejected k p account now err st)) = dispatched st"
  by (auto simp: onRejected_def Let_def split: sum.splits bool.splits)

lemma onRejected_Reissued:
  assumes "fst (onRejected k p account now err st) = Reissued c"
  shows "c = config err \<and> is_402 err \<and> c \<notin> paymentAttempted st"
  using assms
  by (auto simp: onRejected_def Let_def split: sum.splits bool.splits if_splits)

lemma onRejected_already:
  assumes "fst (onRejected k p account now err st) =
             Rejected (Error PlainError ''Payment already attempted for this request'')"
  shows "config err \<in> paymentAttempted st"
  using assms
  by (auto simp: onRejected_def Let_def isValidPaymentRequest_total
      split: sum.splits bool.splits if_splits)

lemma onRejected_signings:
  "signings (snd (onRejected k p account now err st)) = signings st \<or>
   (signings (snd (onRejected k p account now err st)) =
      signings st @ [(config err, as_X402PaymentRequired (response_data err), now)]
    \<and> is_402 err \<and> config err \<notin> paymentAttempted st
    \<and> \<not> is_expired p (expiresAt (as_X402PaymentRequired (response_data err))) now)"
  by (auto simp: onRejected_def Let_def split: sum.splits bool.splits)

lemma onRejected_pays:
  assumes "is_402 err" and "config err \<notin> paymentAttempted st"
    and "isValidPaymentRequest (response_data err) = Inr True"
    and "\<not> is_expired p (expiresAt (as_X402PaymentRequired (response_data err))) now"
    and "signPayment_interceptor k (as_X402PaymentRequired (response_data err)) account = Inr tx"
  shows "onRejected k p account now err st =
     (Reissued (config err),
      st\<lparr>paymentAttempted := insert (config err) (paymentAttempted st),
         signings := signings st @ [(config err, as_X402PaymentRequired (response_data err), now)],
         config_headers := attach_payment (config err) tx (response_data err) (config_headers st)\<rparr>)"
  using assms by (simp add: onRejected_def Let_def)

subsection \<open>Rounds of the wrapped client\<close>

lemma send_merged_simps [simp]:
  "paymentAttempted (send_merged c st) = paymentAttempted st"
  "signings (send_merged c st) = signings st"
  "allocated (send_merged c st) = Suc (allocated st)"
  "dispatched (send_merged c st) = dispatched st @ [(allocated st, headers_of st c)]"
  by (simp_all add: send_merged_def)

text \<open>A round on a 402 that is paid: the new object is marked, the signer is called
  once, and the new object is sent again.\<close>

lemma paid_round:
  assumes inv: "marks_allocated st"
    and ans: "http w (length (dispatched st)) (base\<lparr>headers := headers_of st c\<rparr>) = Inl e"
    and pays: "pays k w account (length (dispatched st)) e"
  shows "\<exists>st'. axios_request k w account base (Suc fuel) c st =
                 axios_request k w account base fuel (allocated st) st'
     \<and> marks_allocated st'
     \<and> allocated st' = Suc (allocated st)
     \<and> paymentAttempted st' = insert (allocated st) (paymentAttempted st)
     \<and> length (signings st') = Suc (length (signings st))
     \<and> length (dispatched st') = Suc (length (dispatched st))"
proof -
  obtain m body where e: "e = AxiosError m (Some (402, body))"
    and valid: "isValidPaymentRequest body = Inr True"
    and fresh: "\<not> is_expired (Date_parse w) (expiresAt (as_X402PaymentRequired body))
                  (clock w (length (dispatched st)))"
    and sg: "\<not> isl (signPayment_interceptor k (as_X402PaymentRequired body) account)"
    using pays by (auto simp: pays_def split: thrown.splits option.splits prod.splits)
  obtain tx where tx: "signPayment_interceptor k (as_X402PaymentRequired body) account = Inr tx"
    using sg by (cases "signPayment_interceptor k (as_X402PaymentRequired body) account") auto
  let ?err = "\<lparr>config = allocated st, message = m, response = Some (402, body)\<rparr>"
  have unmarked: "config ?err \<notin> paymentAttempted (send_merged c st)"
    using inv by (auto simp: marks_allocated_def)
  have step: "onRejected k (Date_parse w) account (clock w (length (dispatched st))) ?err (send_merged c st) =
     (Reissued (config ?err),
      (send_merged c st)\<lparr>paymentAttempted := insert (config ?err) (paymentAttempted (send_merged c st)),
         signings := signings (send_merged c st) @
            [(config ?err, as_X402PaymentRequired (response_data ?err), clock w (length (dispatched st)))],
         config_headers := attach_payment (config ?err) tx (response_data ?err)
            (config_headers (send_merged c st))\<rparr>)"
    using unmarked valid fresh tx
    by (intro onRejected_pays) (simp_all add: is_402_def response_data_def)
  show ?thesis
    using ans e step inv
    by (auto simp: Let_def marks_allocated_def less_SucI intro!: exI)
qed

lemma served_round:
  assumes "http w (length (dispatched st)) (base\<lparr>headers := headers_of st c\<rparr>) = Inr d"
  shows "axios_request k w account base (Suc fuel) c st = Some (Inr d, send_merged c st)"
  using assms by (simp add: Let_def)


text \<open>Through the wrapped client the handler never meets a marked object: the object of
  each round is new, and the marked objects stay among those created. So the test
  \<^verbatim>\<open>paymentAttempted.has(originalRequest)\<close> is false in every round.\<close>

lemma wrapped_round_unmarked:
  assumes "marks_allocated st"
  shows "allocated st \<notin> paymentAttempted (send_merged c st)"
    and "marks_allocated (snd (onRejected k p account now
           \<lparr>config = allocated st, message = m, response = resp\<rparr> (send_merged c st)))"
proof -
  show "allocated st \<notin> paymentAttempted (send_merged c st)"
    using assms by (auto simp: marks_allocated_def)
  have "paymentAttempted (snd (onRejected k p account now
           \<lparr>config = allocated st, message = m, response = resp\<rparr> (send_merged c st)))
        \<subseteq> insert (allocated st) (paymentAttempted st)"
    using onRejected_marked_only [of k p account now
        "\<lparr>config = allocated st, message = m, response = resp\<rparr>" "send_merged c st"]
    by simp
  moreover have "allocated (snd (onRejected k p account now
           \<lparr>config = allocated st, message = m, response = resp\<rparr> (send_merged c st)))
        = Suc (allocated st)"
    by (simp add: onRejected_allocated)
  ultimately show "marks_allocated (snd (onRejected k p account now
           \<lparr>config = allocated st, message = m, response = resp\<rparr> (send_merged c st)))"
    using assms by (auto simp: marks_allocated_def less_SucI)
qed

text \<open>The token type header holds the value of the body: a number stays a number.\<close>

lemma token_type_header_value:
  "token_type_header (JObj [(''tokenType'', JNum 7)]) = JNum 7"
  "token_type_header (JObj [(''tokenType'', JStr ''sBTC'')]) = JStr ''sBTC''"
  "token_type_header (JObj []) = JStr ''STX''"
  by (simp_all add: token_type_header_def prop_of_def)

text \<open>After \<open>j\<close> answers 402 that are paid and one that is served, the wrapped client has
  signed \<open>j\<close> payments and sent \<open>j + 1\<close> requests; the objects that existed before
  are marked as they were.\<close>

lemma wrapped_pays_every_402:
  assumes "marks_allocated st"
    and "\<forall>i<j. \<forall>r. \<exists>e. http w (length (dispatched st) + i) r = Inl e
            \<and> pays k w account (length (dispatched st) + i) e"
    and "\<forall>r. http w (length (dispatched st) + j) r = Inr d"
  shows "\<exists>st'. axios_request k w account base (Suc j) c st = Some (Inr d, st')
     \<and> length (signings st') = length (signings st) + j
     \<and> length (dispatched st') = length (dispatched st) + Suc j
     \<and> marks_allocated st'
     \<and> allocated st \<le> allocated st'
     \<and> (\<forall>x<allocated st. x \<in> paymentAttempted st' \<longleftrightarrow> x \<in> paymentAttempted st)"
  using assms
proof (induction j arbitrary: c st)
  case 0
  then show ?case
    by (auto simp: served_round marks_allocated_def less_SucI)
next
  case (Suc j)
  from Suc.prems(2) obtain e
    where ans: "http w (length (dispatched st)) (base\<lparr>headers := headers_of st c\<rparr>) = Inl e"
      and pays: "pays k w account (length (dispatched st)) e"
    by (metis add.right_neutral zero_less_Suc)
  from paid_round [OF Suc.prems(1) ans pays, of "Suc j"] obtain st1
    where step: "axios_request k w account base (Suc (Suc j)) c st =
                 axios_request k w account base (Suc j) (allocated st) st1"
      and inv1: "marks_allocated st1"
      and al1: "allocated st1 = Suc (allocated st)"
      and pa1: "paymentAttempted st1 = insert (allocated st) (paymentAttempted st)"
      and sg1: "length (signings st1) = Suc (length (signings st))"
      and ds1: "length (dispatched st1) = Suc (length (dispatched st))"
    by blast
  have a: "\<forall>i<j. \<forall>r. \<exists>e. http w (length (dispatched st1) + i) r = Inl e
            \<and> pays k w account (length (dispatched st1) + i) e"
    using Suc.prems(2) ds1 by (metis Suc_less_eq add_Suc_shift)
  have b: "\<forall>r. http w (length (dispatched st1) + j) r = Inr d"
    using Suc.prems(3) ds1 by simp
  from Suc.IH [OF inv1 a b, of "allocated st"] obtain st'
    where r: "axios_request k w account base (Suc j) (allocated st) st1 = Some (Inr d, st')"
      and sg: "length (signings st') = length (signings st1) + j"
      and ds: "length (dispatched st') = length (dispatched st1) + Suc j"
      and inv: "marks_allocated st'"
      and al: "allocated st1 \<le> allocated st'"
      and pa: "\<forall>x<allocated st1. x \<in> paymentAttempted st' \<longleftrightarrow> x \<in> paymentAttempted st1"
    by blast
  have "\<forall>x<allocated st. x \<in> paymentAttempted st' \<longleftrightarrow> x \<in> paymentAttempted st"
    using pa al1 pa1 by auto
  then show ?case
    using step r sg ds inv al sg1 ds1 al1 by (intro exI [of _ st']) simp
qed

text \<open>When every answer is a 402 that can be paid, the wrapped client pays without
  end: no amount of fuel gives a result.\<close>

lemma wrapped_never_ends:
  assumes "marks_allocated st"
    and "\<forall>n r. \<exists>e. http w n r = Inl e \<and> pays k w account n e"
  shows "axios_request k w account base fuel c st = None"
  using assms(1)
proof (induction fuel arbitrary: c st)
  case 0
  show ?case by simp
next
  case (Suc fuel)
  from assms(2) obtain e
    where ans: "http w (length (dispatched st)) (base\<lparr>headers := headers_of st c\<rparr>) = Inl e"
      and pays: "pays k w account (length (dispatched st)) e"
    by blast
  from paid_round [OF Suc.prems ans pays, of fuel] Suc.IH show ?case
    by metis
qed

subsection \<open>Evaluating the wrapped client\<close>

text \<open>The state of a freshly loaded module in which the caller holds one request
  object, number 0; an account; a served answer; the error of a 402 that carries the
  offer; and two servers: one that answers 402 three times and then serves, one that
  answers 402 to every other request.\<close>

definition fresh_state :: interceptor_state where
  "fresh_state = \<lparr>paymentAttempted = {}, signings = [], allocated = 1,
     config_headers = (\<lambda>c. None), dispatched = []\<rparr>"

definition test_account :: StacksAccount where
  "test_account = \<lparr>account_address = ''ST2SENDER'', account_privateKey = ''k1'', account_network = ''testnet''\<rparr>"

definition served :: json where
  "served = JObj [(''ok'', JBool True)]"

definition payment_required :: thrown where
  "payment_required = AxiosError ''Request failed with status code 402'' (Some (402, offer))"

definition three_402_then_ok :: world where
  "three_402_then_ok =
     \<lparr>http = (\<lambda>n r. if n < 3 then Inl payment_required else Inr served),
      clock = (\<lambda>n. 1800000000000),
      Date_parse = parse_2030\<rparr>"

definition every_other_402 :: world where
  "every_other_402 =
     \<lparr>http = (\<lambda>n r. if even n then Inl payment_required else Inr served),
      clock = (\<lambda>n. 1800000000000),
      Date_parse = parse_2030\<rparr>"

text \<open>\<^verbatim>\<open>api.get('/resource')\<close> on the wrapped instance, the caller's object being
  number 0.\<close>

definition wrapped_get :: "world \<Rightarrow> nat \<Rightarrow> interceptor_state \<Rightarrow> ((thrown + json) \<times> interceptor_state) option" where
  "wrapped_get w fuel st =
     axios_request stub_sdk w test_account (base_request ''/resource'' default_options) fuel 0 st"

lemma offer_well_formed: "isValidPaymentRequest offer = Inr True"
  by (simp add: isValidPaymentRequest_total offer_def has_string_def)

lemma offer_signed_interceptor:
  "signPayment_interceptor stub_sdk (as_X402PaymentRequired offer) account = Inr ''00aa''"
  by (simp add: offer_request signPayment_interceptor_def bind_thrown_def stub_sdk_def
      or_default_def BigInt_eval)

lemma offer_unexpired: "\<not> is_expired parse_2030 (expiresAt (as_X402PaymentRequired offer)) 1800000000000"
  by (simp add: offer_request is_expired_def parse_2030_def)

lemma offer_pays:
  assumes "Date_parse w = parse_2030" and "clock w n = 1800000000000"
  shows "pays stub_sdk w account n payment_required"
  using assms
  by (simp add: pays_def payment_required_def offer_well_formed offer_unexpired
      offer_signed_interceptor)

lemma fresh_state_marks: "marks_allocated fresh_state"
  by (simp add: marks_allocated_def fresh_state_def)

text \<open>
  Claim C2. The claim: for every request object passing through the wrapped axios client
  at most one cycle of signing and retrying is performed, and a 402 for a request that
  was retried is rejected with \<^verbatim>\<open>Payment already attempted for this request\<close>, however
  often the server answers 402. The code does not do this. The handler marks and tests
  \<^verbatim>\<open>error.config\<close>, and retries through \<^verbatim>\<open>axiosInstance.request\<close>, which sends a
  new object with the same headers; so the 402 that answers the retry comes with an
  object that is not marked, and is paid again. Against a server that answers 402 with
  a valid offer three times and then serves the resource, one call of the wrapped client
  signs three payments, sends four requests and returns the served answer; no error is
  raised. (Lemma \<open>wrapped_pays_every_402\<close> is the same for any number of answers;
  by \<open>wrapped_never_ends\<close> the call never returns when every answer is such a 402;
  by \<open>wrapped_round_unmarked\<close> the test for the marker is false in every round.)
\<close>

theorem C2_every_402_is_paid_again:
  "\<exists>st. wrapped_get three_402_then_ok 4 fresh_state = Some (Inr served, st)
      \<and> length (signings st) = 3 \<and> length (dispatched st) = 4"
proof -
  have p: "pays stub_sdk three_402_then_ok test_account n payment_required" for n
    by (rule offer_pays) (simp_all add: three_402_then_ok_def)
  have a: "\<forall>i<3. \<forall>r. \<exists>e. http three_402_then_ok (length (dispatched fresh_state) + i) r = Inl e
            \<and> pays stub_sdk three_402_then_ok test_account (length (dispatched fresh_state) + i) e"
    using p by (simp add: three_402_then_ok_def fresh_state_def)
  have b: "\<forall>r. http three_402_then_ok (length (dispatched fresh_state) + 3) r = Inr served"
    by (simp add: three_402_then_ok_def fresh_state_def)
  from wrapped_pays_every_402 [OF fresh_state_marks a b,
      of "base_request ''/resource'' default_options" 0]
  show ?thesis
    by (auto simp: wrapped_get_def fresh_state_def eval_nat_numeral)
qed


section \<open>Expiration before signing\<close>

lemma signPayment_returns: "\<exists>r. signPayment k c pr = Inr r"
  by (auto simp: signPayment_def try_catch_def split: sum.splits)

lemma on_payment_required_expired:
  assumes "isValidPaymentRequest_client body = Inr True"
    and "Date_parse w (expiresAt (as_X402PaymentRequired body)) = Some t"
    and "t < clock w (length (sent fx) - 1)"
  shows "on_payment_required k c w body fx =
           (Inl (Error PlainError ''Payment request has expired''), fx)"
  using assms by (simp add: on_payment_required_def is_expired_def)

lemma on_payment_required_in_time:
  assumes "isValidPaymentRequest_client body = Inr True"
    and "Date_parse w (expiresAt (as_X402PaymentRequired body)) = Some t"
    and "clock w (length (sent fx) - 1) \<le> t"
  shows "signer_calls (snd (on_payment_required k c w body fx)) =
           signer_calls fx @ [(as_X402PaymentRequired body, clock w (length (sent fx) - 1))]"
    and "fst (on_payment_required k c w body fx) \<noteq>
           Inl (Error PlainError ''Payment request has expired'')"
proof -
  obtain r where r: "signPayment k c (as_X402PaymentRequired body) = Inr r"
    using signPayment_returns by blast
  show "signer_calls (snd (on_payment_required k c w body fx)) =
           signer_calls fx @ [(as_X402PaymentRequired body, clock w (length (sent fx) - 1))]"
    using assms r by (simp add: on_payment_required_def is_expired_def Let_def)
  show "fst (on_payment_required k c w body fx) \<noteq>
           Inl (Error PlainError ''Payment request has expired'')"
    using assms r by (simp add: on_payment_required_def is_expired_def Let_def signing_failed_def)
qed

lemma on_payment_required_calls:
  "signer_calls (snd (on_payment_required k c w body fx)) = signer_calls fx \<or>
   (signer_calls (snd (on_payment_required k c w body fx)) =
      signer_calls fx @ [(as_X402PaymentRequired body, clock w (length (sent fx) - 1))] \<and>
    \<not> is_expired (Date_parse w) (expiresAt (as_X402PaymentRequired body))
        (clock w (length (sent fx) - 1)))"
  by (auto simp: on_payment_required_def Let_def split: sum.splits bool.splits)

text \<open>A call of the signer is in time when the request's \<^verbatim>\<open>expiresAt\<close>, if it parses
  to a date, is not before the clock reading of the check.\<close>

definition in_time :: "(string \<Rightarrow> int option) \<Rightarrow> X402PaymentRequired \<Rightarrow> int \<Rightarrow> bool" where
  "in_time parse_date pr now = (case parse_date (expiresAt pr) of None \<Rightarrow> True | Some t \<Rightarrow> now \<le> t)"

lemma in_time_iff: "in_time p pr now \<longleftrightarrow> \<not> is_expired p (expiresAt pr) now"
  by (auto simp: in_time_def is_expired_def split: option.splits)

lemma loop_calls_in_time:
  assumes "list_all (\<lambda>(pr, now). in_time (Date_parse w) pr now) (signer_calls fx)"
  shows "list_all (\<lambda>(pr, now). in_time (Date_parse w) pr now)
           (signer_calls (snd (requestWithPayment_loop k c w req m a lsp lpr fx)))"
proof (rule loop_invariant [where I = "\<lambda>fx. list_all (\<lambda>(pr, now). in_time (Date_parse w) pr now)
           (signer_calls fx)"])
  show "list_all (\<lambda>(pr, now). in_time (Date_parse w) pr now) (signer_calls fx)"
    by (rule assms)
next
  fix fx :: effects and r
  assume "list_all (\<lambda>(pr, now). in_time (Date_parse w) pr now) (signer_calls fx)"
  then show "list_all (\<lambda>(pr, now). in_time (Date_parse w) pr now)
           (signer_calls (fx\<lparr>sent := sent fx @ [r]\<rparr>))"
    by simp
next
  fix body and fx :: effects
  assume "list_all (\<lambda>(pr, now). in_time (Date_parse w) pr now) (signer_calls fx)"
  then show "list_all (\<lambda>(pr, now). in_time (Date_parse w) pr now)
           (signer_calls (snd (on_payment_required k c w body fx)))"
    using on_payment_required_calls [of k c w body fx] by (auto simp: in_time_iff)
qed

text \<open>The loop only adds to the calls of the signer.\<close>

lemma loop_calls_extend:
  "\<exists>ys. signer_calls (snd (requestWithPayment_loop k c w req m a lsp lpr fx)) =
          signer_calls fx @ ys"
proof (rule loop_invariant [where I = "\<lambda>fx'. \<exists>ys. signer_calls fx' = signer_calls fx @ ys"])
  show "\<exists>ys. signer_calls fx = signer_calls fx @ ys" by simp
next
  fix fx' :: effects and r
  assume "\<exists>ys. signer_calls fx' = signer_calls fx @ ys"
  then show "\<exists>ys. signer_calls (fx'\<lparr>sent := sent fx' @ [r]\<rparr>) = signer_calls fx @ ys"
    by simp
next
  fix body and fx' :: effects
  assume "\<exists>ys. signer_calls fx' = signer_calls fx @ ys"
  then show "\<exists>ys. signer_calls (snd (on_payment_required k c w body fx')) = signer_calls fx @ ys"
    using on_payment_required_calls [of k c w body fx'] by auto
qed

lemma onRejected_expired:
  assumes "is_402 err" and "config err \<notin> paymentAttempted st"
    and "isValidPaymentRequest (response_data err) = Inr True"
    and "p (expiresAt (as_X402PaymentRequired (response_data err))) = Some t"
    and "t < now"
  shows "onRejected k p account now err st =
     (Rejected (Error PlainError ''Payment request has expired''),
      st\<lparr>paymentAttempted := insert (config err) (paymentAttempted st)\<rparr>)"
  using assms by (simp add: onRejected_def is_expired_def)

lemma onRejected_in_time:
  assumes "is_402 err" and "config err \<notin> paymentAttempted st"
    and "isValidPaymentRequest (response_data err) = Inr True"
    and "p (expiresAt (as_X402PaymentRequired (response_data err))) = Some t"
    and "now \<le> t"
  shows "signings (snd (onRejected k p account now err st)) =
           signings st @ [(config err, as_X402PaymentRequired (response_data err), now)]"
    and "fst (onRejected k p account now err st) \<noteq>
           Rejected (Error PlainError ''Payment request has expired'')"
  using assms
  by (auto simp: onRejected_def is_expired_def Let_def split: sum.splits)

lemma wrapped_signings_in_time:
  assumes "axios_request k w account base fuel c st = Some (r, st')"
    and "list_all (\<lambda>(c, pr, now). in_time (Date_parse w) pr now) (signings st)"
  shows "list_all (\<lambda>(c, pr, now). in_time (Date_parse w) pr now) (signings st')"
  using assms
proof (induction fuel arbitrary: c st)
  case 0
  then show ?case by simp
next
  case (Suc fuel)
  let ?n = "length (dispatched st)"
  show ?case
  proof (cases "http w ?n (base\<lparr>headers := headers_of st c\<rparr>)")
    case (Inr d)
    then show ?thesis using Suc.prems by (auto simp: Let_def)
  next
    case (Inl e)
    show ?thesis
    proof (cases e)
      case (AxiosError m resp)
      let ?err = "\<lparr>config = allocated st, message = m, response = resp\<rparr>"
      obtain out st2 where o: "onRejected k (Date_parse w) account (clock w ?n) ?err (send_merged c st) = (out, st2)"
        by (cases "onRejected k (Date_parse w) account (clock w ?n) ?err (send_merged c st)")
      have inv2: "list_all (\<lambda>(c, pr, now). in_time (Date_parse w) pr now) (signings st2)"
        using onRejected_signings [of k "Date_parse w" account "clock w ?n" ?err "send_merged c st"]
          o Suc.prems(2)
        by (auto simp: in_time_iff)
      show ?thesis
      proof (cases out)
        case (Rejected x)
        then show ?thesis using Suc.prems(1) Inl AxiosError o inv2 by (auto simp: Let_def)
      next
        case (Reissued again)
        then have "axios_request k w account base fuel again st2 = Some (r, st')"
          using Suc.prems(1) Inl AxiosError o by (simp add: Let_def)
        then show ?thesis using inv2 by (rule Suc.IH)
      qed
    next
      case (Error x1 x2)
      then show ?thesis using Suc.prems Inl by (auto simp: Let_def)
    next
      case (NonError)
      then show ?thesis using Suc.prems Inl by (auto simp: Let_def)
    qed
  qed
qed


lemma first_answer_expired:
  assumes "answer_body w 0 (iteration_request (base_request u options) None None) = Some body"
    and "0 \<le> maxRetries_of options"
    and "isValidPaymentRequest_client body = Inr True"
    and "Date_parse w (expiresAt (as_X402PaymentRequired body)) = Some t"
    and "t < clock w 0"
  shows "requestWithPayment k c w u options =
     (Inl (Error PlainError ''Payment request has expired''),
      \<lparr>sent = [iteration_request (base_request u options) None None], signer_calls = []\<rparr>)"
proof -
  obtain e where e: "http w 0 (iteration_request (base_request u options) None None) = Inl e"
      "payment_required_body e = Some body"
    using answer_bodyD [OF assms(1)] by blast
  have "on_payment_required k c w body
          (no_effects\<lparr>sent := sent no_effects @ [iteration_request (base_request u options) None None]\<rparr>)
        = (Inl (Error PlainError ''Payment request has expired''),
           no_effects\<lparr>sent := sent no_effects @ [iteration_request (base_request u options) None None]\<rparr>)"
    using assms(3,4,5) by (intro on_payment_required_expired [where t = t]) (simp_all add: no_effects_def)
  then show ?thesis
    unfolding requestWithPayment_def using e assms(2)
    by (subst loop_402 [where err = e and body = body]) (simp_all add: no_effects_def)
qed

lemma first_answer_in_time:
  assumes "answer_body w 0 (iteration_request (base_request u options) None None) = Some body"
    and "0 \<le> maxRetries_of options"
    and "isValidPaymentRequest_client body = Inr True"
    and "Date_parse w (expiresAt (as_X402PaymentRequired body)) = Some t"
    and "clock w 0 \<le> t"
  shows "\<exists>ys. signer_calls (snd (requestWithPayment k c w u options)) =
           (as_X402PaymentRequired body, clock w 0) # ys"
proof -
  let ?r0 = "iteration_request (base_request u options) None None"
  let ?fx1 = "no_effects\<lparr>sent := sent no_effects @ [?r0]\<rparr>"
  obtain e where e: "http w (length (sent no_effects)) ?r0 = Inl e"
      "payment_required_body e = Some body"
    using answer_bodyD [OF assms(1)] by (auto simp: no_effects_def)
  obtain res fx2 where o: "on_payment_required k c w body ?fx1 = (res, fx2)"
    by (cases "on_payment_required k c w body ?fx1")
  have "signer_calls (snd (on_payment_required k c w body ?fx1)) =
          signer_calls ?fx1 @ [(as_X402PaymentRequired body, clock w (length (sent ?fx1) - 1))]"
    using assms(3,4,5) by (intro on_payment_required_in_time(1) [where t = t]) (simp_all add: no_effects_def)
  then have calls: "signer_calls fx2 = [(as_X402PaymentRequired body, clock w 0)]"
    using o by (simp add: no_effects_def)
  show ?thesis
  proof (cases res)
    case (Inl x)
    then show ?thesis
      unfolding requestWithPayment_def
      using o calls by (subst loop_402 [OF assms(2) e]) simp
  next
    case (Inr p)
    obtain tx pr where p: "p = (tx, pr)" by (cases p)
    have "requestWithPayment k c w u options =
        requestWithPayment_loop k c w (base_request u options) (maxRetries_of options) (0 + 1)
          (Some tx) (Some pr) fx2"
      unfolding requestWithPayment_def
      using o Inr p by (subst loop_402 [OF assms(2) e]) simp
    then show ?thesis
      using loop_calls_extend [of k c w "base_request u options" "maxRetries_of options" "0 + 1"
          "Some tx" "Some pr" fx2] calls
      by auto
  qed
qed

text \<open>Two more servers: one answers the first request with the offer and then serves,
  with the clock exactly at the offer's expiration time; for the other every 402 is
  handled after the offer has expired. And the error of a 402 with the offer, as the
  handler sees it for the request object \<open>c\<close>.\<close>

definition at_expiry :: world where
  "at_expiry =
     \<lparr>http = (\<lambda>n r. if n = 0 then Inl payment_required else Inr served),
      clock = (\<lambda>n. 1893456000000),
      Date_parse = parse_2030\<rparr>"

definition after_expiry :: world where
  "after_expiry = always_402\<lparr>clock := (\<lambda>n. 1900000000000)\<rparr>"

definition offer_error :: "nat \<Rightarrow> axios_error" where
  "offer_error c = \<lparr>config = c, message = ''Request failed with status code 402'',
     response = Some (402, offer)\<rparr>"

lemma first_call_paid:
  "\<exists>st1. wrapped_get every_other_402 2 fresh_state = Some (Inr served, st1)
     \<and> length (signings st1) = 1 \<and> length (dispatched st1) = 2
     \<and> marks_allocated st1 \<and> 0 \<notin> paymentAttempted st1 \<and> 0 < allocated st1"
proof -
  have p: "pays stub_sdk every_other_402 test_account n payment_required" for n
    by (rule offer_pays) (simp_all add: every_other_402_def)
  have a: "\<forall>i<1. \<forall>r. \<exists>e. http every_other_402 (length (dispatched fresh_state) + i) r = Inl e
            \<and> pays stub_sdk every_other_402 test_account (length (dispatched fresh_state) + i) e"
    using p by (simp add: every_other_402_def fresh_state_def)
  have b: "\<forall>r. http every_other_402 (length (dispatched fresh_state) + 1) r = Inr served"
    by (simp add: every_other_402_def fresh_state_def)
  from wrapped_pays_every_402 [OF fresh_state_marks a b,
      of "base_request ''/resource'' default_options" 0]
  show ?thesis
    by (auto simp: wrapped_get_def fresh_state_def eval_nat_numeral)
qed

text \<open>
  Claim C5, as amended. Take a valid 402 body whose \<^verbatim>\<open>expiresAt\<close> parses to a time
  \<open>t\<close>, checked when the clock reads \<open>now\<close>. If \<open>t < now\<close>, both paths reject with
  \<^verbatim>\<open>Payment request has expired\<close> and the signer is not called: the \<^verbatim>\<open>catch\<close> block
  of \<^verbatim>\<open>requestWithPayment\<close> (so a call whose first answer is such a 402 throws that
  error and signs nothing), and the interceptor's handler for a request object that is
  not marked. If \<open>now \<le> t\<close>, equality included, both paths call the signer for the
  body and do not reject it as expired. And in every run of either path, each call of
  the signer for a request whose \<^verbatim>\<open>expiresAt\<close> parses has \<open>now \<le> t\<close>.
\<close>

theorem C5_expired_rejected_before_signing:
  "(isValidPaymentRequest_client body = Inr True \<longrightarrow>
    Date_parse w (expiresAt (as_X402PaymentRequired body)) = Some t \<longrightarrow>
      (t < clock w (length (sent fx) - 1) \<longrightarrow>
         on_payment_required k c w body fx =
           (Inl (Error PlainError ''Payment request has expired''), fx))
      \<and> (clock w (length (sent fx) - 1) \<le> t \<longrightarrow>
         signer_calls (snd (on_payment_required k c w body fx)) =
           signer_calls fx @ [(as_X402PaymentRequired body, clock w (length (sent fx) - 1))]
         \<and> fst (on_payment_required k c w body fx) \<noteq>
             Inl (Error PlainError ''Payment request has expired'')))
   \<and> (answer_body w 0 (iteration_request (base_request u options) None None) = Some body \<longrightarrow>
       0 \<le> maxRetries_of options \<longrightarrow>
       isValidPaymentRequest_client body = Inr True \<longrightarrow>
       Date_parse w (expiresAt (as_X402PaymentRequired body)) = Some t \<longrightarrow>
         (t < clock w 0 \<longrightarrow>
            fst (requestWithPayment k c w u options) =
              Inl (Error PlainError ''Payment request has expired'') \<and>
            signer_calls (snd (requestWithPayment k c w u options)) = [])
         \<and> (clock w 0 \<le> t \<longrightarrow>
            (\<exists>ys. signer_calls (snd (requestWithPayment k c w u options)) =
               (as_X402PaymentRequired body, clock w 0) # ys)))
   \<and> list_all (\<lambda>(pr, now). in_time (Date_parse w) pr now)
        (signer_calls (snd (requestWithPayment k c w u options)))
   \<and> (is_402 err \<longrightarrow> config err \<notin> paymentAttempted st \<longrightarrow>
       isValidPaymentRequest (response_data err) = Inr True \<longrightarrow>
       p (expiresAt (as_X402PaymentRequired (response_data err))) = Some t' \<longrightarrow>
         (t' < now \<longrightarrow>
            fst (onRejected k p account now err st) =
              Rejected (Error PlainError ''Payment request has expired'') \<and>
            signings (snd (onRejected k p account now err st)) = signings st)
         \<and> (now \<le> t' \<longrightarrow>
            signings (snd (onRejected k p account now err st)) =
              signings st @ [(config err, as_X402PaymentRequired (response_data err), now)] \<and>
            fst (onRejected k p account now err st) \<noteq>
              Rejected (Error PlainError ''Payment request has expired'')))
   \<and> (axios_request k w account base fuel cfg st = Some (res, st') \<longrightarrow>
       list_all (\<lambda>(c, pr, now). in_time (Date_parse w) pr now) (signings st) \<longrightarrow>
       list_all (\<lambda>(c, pr, now). in_time (Date_parse w) pr now) (signings st'))"
proof (intro conjI impI)
  assume a: "isValidPaymentRequest_client body = Inr True"
    "Date_parse w (expiresAt (as_X402PaymentRequired body)) = Some t"
  {
    assume "t < clock w (length (sent fx) - 1)"
    with a show "on_payment_required k c w body fx =
        (Inl (Error PlainError ''Payment request has expired''), fx)"
      by (rule on_payment_required_expired)
  next
    assume b: "clock w (length (sent fx) - 1) \<le> t"
    show "signer_calls (snd (on_payment_required k c w body fx)) =
           signer_calls fx @ [(as_X402PaymentRequired body, clock w (length (sent fx) - 1))]"
      using a b by (rule on_payment_required_in_time(1))
    show "fst (on_payment_required k c w body fx) \<noteq>
             Inl (Error PlainError ''Payment request has expired'')"
      using a b by (rule on_payment_required_in_time(2))
  }
next
  assume a: "answer_body w 0 (iteration_request (base_request u options) None None) = Some body"
    "0 \<le> maxRetries_of options" "isValidPaymentRequest_client body = Inr True"
    "Date_parse w (expiresAt (as_X402PaymentRequired body)) = Some t"
  {
    assume b: "t < clock w 0"
    show "fst (requestWithPayment k c w u options) =
           Inl (Error PlainError ''Payment request has expired'')"
      by (simp add: first_answer_expired [OF a b])
    show "signer_calls (snd (requestWithPayment k c w u options)) = []"
      by (simp add: first_answer_expired [OF a b])
  next
    assume b: "clock w 0 \<le> t"
    show "\<exists>ys. signer_calls (snd (requestWithPayment k c w u options)) =
               (as_X402PaymentRequired body, clock w 0) # ys"
      by (rule first_answer_in_time [OF a b])
  }
next
  show "list_all (\<lambda>(pr, now). in_time (Date_parse w) pr now)
        (signer_calls (snd (requestWithPayment k c w u options)))"
    unfolding requestWithPayment_def
    by (rule loop_calls_in_time) (simp add: no_effects_def)
next
  assume a: "is_402 err" "config err \<notin> paymentAttempted st"
    "isValidPaymentRequest (response_data err) = Inr True"
    "p (expiresAt (as_X402PaymentRequired (response_data err))) = Some t'"
  {
    assume b: "t' < now"
    show "fst (onRejected k p account now err st) =
           Rejected (Error PlainError ''Payment request has expired'')"
      using onRejected_expired [of err st p t' now k account] a b by simp
    show "signings (snd (onRejected k p account now err st)) = signings st"
      using onRejected_expired [of err st p t' now k account] a b by simp
  next
    assume b: "now \<le> t'"
    show "signings (snd (onRejected k p account now err st)) =
              signings st @ [(config err, as_X402PaymentRequired (response_data err), now)]"
      using onRejected_in_time(1) [of err st p t' now k account] a b by simp
    show "fst (onRejected k p account now err st) \<noteq>
              Rejected (Error PlainError ''Payment request has expired'')"
      using onRejected_in_time(2) [of err st p t' now k account] a b by simp
  }
next
  assume "axios_request k w account base fuel cfg st = Some (res, st')"
    "list_all (\<lambda>(c, pr, now). in_time (Date_parse w) pr now) (signings st)"
  then show "list_all (\<lambda>(c, pr, now). in_time (Date_parse w) pr now) (signings st')"
    by (rule wrapped_signings_in_time)
qed


theorem C5_expired_rejected_before_signing_witness:
  "on_payment_required stub_sdk test_client after_expiry offer no_effects =
     (Inl (Error PlainError ''Payment request has expired''), no_effects)
   \<and> signer_calls (snd (on_payment_required stub_sdk test_client always_402 offer no_effects)) =
       [(as_X402PaymentRequired offer, 1800000000000)]
   \<and> fst (requestWithPayment stub_sdk test_client after_expiry ''/resource'' default_options) =
     Inl (Error PlainError ''Payment request has expired'')
   \<and> signer_calls (snd (requestWithPayment stub_sdk test_client after_expiry ''/resource'' default_options)) = []
   \<and> (\<exists>ys. signer_calls (snd (requestWithPayment stub_sdk test_client always_402 ''/resource'' default_options)) =
         (as_X402PaymentRequired offer, 1800000000000) # ys)
   \<and> fst (onRejected stub_sdk parse_2030 test_account 1900000000000 (offer_error 7) fresh_state) =
       Rejected (Error PlainError ''Payment request has expired'')
   \<and> signings (snd (onRejected stub_sdk parse_2030 test_account 1900000000000 (offer_error 7) fresh_state)) = []
   \<and> signings (snd (onRejected stub_sdk parse_2030 test_account 1800000000000 (offer_error 7) fresh_state)) =
       [(7, as_X402PaymentRequired offer, 1800000000000)]
   \<and> (\<exists>st1. wrapped_get every_other_402 2 fresh_state = Some (Inr served, st1)
         \<and> list_all (\<lambda>(c, pr, now). in_time parse_2030 pr now) (signings st1))"
proof -
  let ?r0 = "iteration_request (base_request ''/resource'' default_options) None None"
  have late1: "answer_body after_expiry 0 ?r0 = Some offer"
    by (simp add: answer_body_def after_expiry_def always_402_def payment_required_body_def)
  have early1: "answer_body always_402 0 ?r0 = Some offer"
    by (simp add: answer_body_def always_402_def payment_required_body_def)
  have h2: "0 \<le> maxRetries_of default_options"
    by (simp add: maxRetries_of_def default_options_def)
  have late3: "Date_parse after_expiry (expiresAt (as_X402PaymentRequired offer)) = Some 1893456000000"
    by (simp add: after_expiry_def always_402_def offer_request parse_2030_def)
  have early3: "Date_parse always_402 (expiresAt (as_X402PaymentRequired offer)) = Some 1893456000000"
    by (simp add: always_402_def offer_request parse_2030_def)
  have late4: "1893456000000 < clock after_expiry 0"
    by (simp add: after_expiry_def)
  have early4: "clock always_402 0 = 1800000000000"
    by (simp add: always_402_def)
  have h5: "is_402 (offer_error 7)" "config (offer_error 7) \<notin> paymentAttempted fresh_state"
    "isValidPaymentRequest (response_data (offer_error 7)) = Inr True"
    "parse_2030 (expiresAt (as_X402PaymentRequired (response_data (offer_error 7)))) = Some 1893456000000"
    "response_data (offer_error 7) = offer" "config (offer_error 7) = 7"
    by (simp_all add: is_402_def offer_error_def fresh_state_def response_data_def
        offer_well_formed offer_request parse_2030_def)
  have h6: "signings fresh_state = []"
    by (simp add: fresh_state_def)
  obtain st1 where run: "wrapped_get every_other_402 2 fresh_state = Some (Inr served, st1)"
    using first_call_paid by blast
  have h7: "axios_request stub_sdk every_other_402 test_account
      (base_request ''/resource'' default_options) 2 0 fresh_state = Some (Inr served, st1)"
    using run by (simp add: wrapped_get_def)
  have h8: "Date_parse every_other_402 = parse_2030"
    by (simp add: every_other_402_def)
  note late = C5_expired_rejected_before_signing [of offer after_expiry 1893456000000 no_effects
        stub_sdk test_client "''/resource''" default_options "offer_error 7" fresh_state
        parse_2030 1893456000000 1900000000000 test_account
        "base_request ''/resource'' default_options" 0 0 "Inr served" fresh_state]
  note early = C5_expired_rejected_before_signing [of offer always_402 1893456000000 no_effects
        stub_sdk test_client "''/resource''" default_options "offer_error 7" fresh_state
        parse_2030 1893456000000 1800000000000 test_account
        "base_request ''/resource'' default_options" 0 0 "Inr served" fresh_state]
  note run = C5_expired_rejected_before_signing [of offer every_other_402 1893456000000 no_effects
        stub_sdk test_client "''/resource''" default_options "offer_error 7" fresh_state
        parse_2030 1893456000000 1800000000000 test_account
        "base_request ''/resource'' default_options" 2 0 "Inr served" st1]
  have late5: "1893456000000 < clock after_expiry (length (sent no_effects) - 1)"
    by (simp add: after_expiry_def)
  have early5: "clock always_402 (length (sent no_effects) - 1) = 1800000000000"
    "signer_calls no_effects = []"
    by (simp_all add: always_402_def no_effects_def)
  have a0: "on_payment_required stub_sdk test_client after_expiry offer no_effects =
     (Inl (Error PlainError ''Payment request has expired''), no_effects)"
    using late late3 late5 offer_valid by simp
  have b0: "signer_calls (snd (on_payment_required stub_sdk test_client always_402 offer no_effects)) =
       [(as_X402PaymentRequired offer, 1800000000000)]"
    using early early3 early5 offer_valid by simp
  have a: "fst (requestWithPayment stub_sdk test_client after_expiry ''/resource'' default_options) =
     Inl (Error PlainError ''Payment request has expired'')
   \<and> signer_calls (snd (requestWithPayment stub_sdk test_client after_expiry ''/resource'' default_options)) = []"
    using late late1 h2 late3 late4 offer_valid by simp
  have b: "\<exists>ys. signer_calls (snd (requestWithPayment stub_sdk test_client always_402 ''/resource'' default_options)) =
         (as_X402PaymentRequired offer, 1800000000000) # ys"
    using early early1 h2 early3 early4 offer_valid by simp
  have c: "fst (onRejected stub_sdk parse_2030 test_account 1900000000000 (offer_error 7) fresh_state) =
       Rejected (Error PlainError ''Payment request has expired'')
   \<and> signings (snd (onRejected stub_sdk parse_2030 test_account 1900000000000 (offer_error 7) fresh_state)) = []"
    using late h5 h6 by simp
  have d: "signings (snd (onRejected stub_sdk parse_2030 test_account 1800000000000 (offer_error 7) fresh_state)) =
       [(7, as_X402PaymentRequired offer, 1800000000000)]"
    using early h5 h6 by simp
  have e: "list_all (\<lambda>(c, pr, now). in_time parse_2030 pr now) (signings st1)"
    using run h7 h8 h6 by simp
  show ?thesis
    using a0 b0 a b c d e \<open>wrapped_get every_other_402 2 fresh_state = Some (Inr served, st1)\<close> by blast
qed

text \<open>The claim as first stated asks for a rejection when \<^verbatim>\<open>expiresAt\<close> equals the
  current time. The comparison is \<^verbatim>\<open>expiresAt < now\<close>: at equality the offer is
  signed and the request retried.\<close>

theorem C5_signed_at_expiry_counterexample:
  "Date_parse at_expiry (expiresAt (as_X402PaymentRequired offer)) = Some 1893456000000
   \<and> clock at_expiry 0 = 1893456000000
   \<and> fst (requestWithPayment stub_sdk test_client at_expiry ''/resource'' default_options) =
       Inr served
   \<and> signer_calls (snd (requestWithPayment stub_sdk test_client at_expiry ''/resource'' default_options)) =
       [(as_X402PaymentRequired offer, 1893456000000)]"
proof -
  let ?req = "base_request ''/resource'' default_options"
  let ?r0 = "iteration_request ?req None None"
  let ?fx1 = "no_effects\<lparr>sent := sent no_effects @ [?r0]\<rparr>"
  have pay: "payable stub_sdk test_client at_expiry (length (sent ?fx1) - 1) offer"
    by (simp add: payable_def offer_valid offer_signed signed_def at_expiry_def no_effects_def)
       (simp add: offer_request is_expired_def parse_2030_def)
  have e: "http at_expiry (length (sent no_effects)) ?r0 = Inl payment_required"
    by (simp add: at_expiry_def no_effects_def)
  have b: "payment_required_body payment_required = Some offer"
    by (simp add: payment_required_body_def payment_required_def)
  have m: "(0::int) \<le> maxRetries_of default_options" "(0::int) + 1 \<le> maxRetries_of default_options"
    by (simp_all add: maxRetries_of_def default_options_def)
  have step1: "requestWithPayment stub_sdk test_client at_expiry ''/resource'' default_options =
      requestWithPayment_loop stub_sdk test_client at_expiry ?req (maxRetries_of default_options) (0 + 1)
        (Some (signed_tx stub_sdk test_client offer)) (Some offer)
        (?fx1\<lparr>signer_calls := signer_calls ?fx1 @
            [(as_X402PaymentRequired offer, clock at_expiry (length (sent ?fx1) - 1))]\<rparr>)"
    unfolding requestWithPayment_def
    by (subst loop_402 [OF m(1) e b]) (simp add: on_payment_required_payable [OF pay])
  have step2: "requestWithPayment_loop stub_sdk test_client at_expiry ?req (maxRetries_of default_options) (0 + 1)
        (Some (signed_tx stub_sdk test_client offer)) (Some offer)
        (?fx1\<lparr>signer_calls := signer_calls ?fx1 @
            [(as_X402PaymentRequired offer, clock at_expiry (length (sent ?fx1) - 1))]\<rparr>)
      = (Inr served,
         ?fx1\<lparr>signer_calls := signer_calls ?fx1 @
            [(as_X402PaymentRequired offer, clock at_expiry (length (sent ?fx1) - 1))],
            sent := sent ?fx1 @ [iteration_request ?req (Some (signed_tx stub_sdk test_client offer))
                (Some offer)]\<rparr>)"
    by (subst loop_answered [OF m(2), where d = served])
       (simp_all add: at_expiry_def no_effects_def)
  show ?thesis
    unfolding step1 step2
    by (simp add: at_expiry_def no_effects_def offer_request parse_2030_def)
qed

section \<open>The payment memo (utils.ts)\<close>

text \<open>\<^verbatim>\<open>String.prototype.split\<close> with a separator of one character: the pieces
  between the separators, of which there is always at least one.\<close>

fun split_on :: "char \<Rightarrow> string \<Rightarrow> string list" where
  "split_on sep [] = [[]]"
| "split_on sep (ch # cs) =
     (if ch = sep then [] # split_on sep cs
      else (case split_on sep cs of
              [] \<Rightarrow> [[ch]]
            | piece # pieces \<Rightarrow> (ch # piece) # pieces))"

text \<open>The object that \<^verbatim>\<open>parsePaymentMemo\<close> returns; \<^verbatim>\<open>custom\<close> is an object
  with string values, held as the list of its entries.\<close>

record parsed_memo =
  parsed_resource :: "string option"
  parsed_nonce :: "string option"
  parsed_custom :: "(string \<times> string) list option"

definition empty_memo :: parsed_memo where
  "empty_memo = \<lparr>parsed_resource = None, parsed_nonce = None, parsed_custom = None\<rparr>"

text \<open>\<^verbatim>\<open>object[key] = value\<close> on a plain object: the entry of the key is replaced,
  or a new entry is added. Assigning a string to \<^verbatim>\<open>__proto__\<close> goes to the setter of
  \<^verbatim>\<open>Object.prototype\<close> and adds no entry.\<close>

fun put_entry :: "string \<Rightarrow> string \<Rightarrow> (string \<times> string) list \<Rightarrow> (string \<times> string) list" where
  "put_entry key v [] = [(key, v)]"
| "put_entry key v (kv # kvs) =
     (if fst kv = key then (key, v) # kvs else kv # put_entry key v kvs)"

definition assign :: "string \<Rightarrow> string \<Rightarrow> (string \<times> string) list \<Rightarrow> (string \<times> string) list" where
  "assign key v kvs = (if key = ''__proto__'' then kvs else put_entry key v kvs)"

text \<open>The body of the \<^verbatim>\<open>for\<close> loop over the parts:
  \<^verbatim>\<open>const [key, value] = part.split('=')\<close> takes the first two pieces, and the part
  counts only when both are non-empty.\<close>

definition memo_part :: "parsed_memo \<Rightarrow> string \<Rightarrow> parsed_memo" where
  "memo_part result part =
     (case split_on CHR ''='' part of
        key # v # rest \<Rightarrow>
          if key \<noteq> [] \<and> v \<noteq> [] then
            if key = ''resource'' then result\<lparr>parsed_resource := Some v\<rparr>
            else if key = ''nonce'' then result\<lparr>parsed_nonce := Some v\<rparr>
            else result\<lparr>parsed_custom :=
                   Some (assign key v (case parsed_custom result of None \<Rightarrow> [] | Some kvs \<Rightarrow> kvs))\<rparr>
          else result
      | _ \<Rightarrow> result)"

definition parsePaymentMemo :: "string \<Rightarrow> parsed_memo" where
  "parsePaymentMemo m =
     (if take 5 m \<noteq> ''x402:'' then empty_memo
      else foldl memo_part empty_memo (split_on CHR '','' (drop 5 m)))"

text \<open>\<^verbatim>\<open>createPaymentMemo\<close>; the optional \<^verbatim>\<open>custom\<close> object is the list of its
  entries, in the order of \<^verbatim>\<open>Object.entries\<close>.\<close>

definition memo_entry :: "string \<times> string \<Rightarrow> string" where
  "memo_entry kv = '','' @ fst kv @ ''='' @ snd kv"

definition createPaymentMemo :: "string \<Rightarrow> string \<Rightarrow> (string \<times> string) list option \<Rightarrow> string" where
  "createPaymentMemo res non cust =
     ''x402:'' @ res @ '',nonce='' @ non @
       (case cust of None \<Rightarrow> [] | Some kvs \<Rightarrow> concat (map memo_entry kvs))"

text \<open>The entries of an optional object, as a set.\<close>

definition entries :: "(string \<times> string) list option \<Rightarrow> (string \<times> string) set" where
  "entries cust = (case cust of None \<Rightarrow> {} | Some kvs \<Rightarrow> set kvs)"

lemma split_on_nonempty: "split_on sep s \<noteq> []"
  by (induction s) (auto split: list.splits)

lemma split_on_none: "sep \<notin> set s \<Longrightarrow> split_on sep s = [s]"
  by (induction s) auto

lemma split_on_append:
  "split_on sep (xs @ sep # ys) = split_on sep xs @ split_on sep ys"
  by (induction xs) (auto split: list.splits simp: split_on_nonempty)

lemma split_on_pieces: "piece \<in> set (split_on sep s) \<Longrightarrow> set piece \<subseteq> set s"
proof (induction s arbitrary: piece)
  case Nil
  then show ?case by simp
next
  case (Cons ch cs)
  show ?case
  proof (cases "ch = sep")
    case True
    then show ?thesis using Cons by auto
  next
    case False
    obtain p ps where sp: "split_on sep cs = p # ps"
      using split_on_nonempty [of sep cs] by (cases "split_on sep cs") auto
    then have "piece = ch # p \<or> piece \<in> set ps"
      using Cons.prems False by auto
    then show ?thesis
      using Cons.IH [of p] Cons.IH [of piece] sp by auto
  qed
qed

text \<open>The part of the memo that an entry makes, after its comma.\<close>

definition memo_pair :: "string \<times> string \<Rightarrow> string" where
  "memo_pair kv = fst kv @ ''='' @ snd kv"

lemma memo_part_no_eq: "CHR ''='' \<notin> set part \<Longrightarrow> memo_part result part = result"
  by (simp add: memo_part_def split_on_none)

lemma memo_part_pair:
  assumes "key \<noteq> []" and "v \<noteq> []" and "CHR ''='' \<notin> set key" and "CHR ''='' \<notin> set v"
  shows "memo_part result (key @ ''='' @ v) =
     (if key = ''resource'' then result\<lparr>parsed_resource := Some v\<rparr>
      else if key = ''nonce'' then result\<lparr>parsed_nonce := Some v\<rparr>
      else result\<lparr>parsed_custom :=
             Some (assign key v (case parsed_custom result of None \<Rightarrow> [] | Some kvs \<Rightarrow> kvs))\<rparr>)"
proof -
  have "split_on CHR ''='' (key @ ''='' @ v) = [key, v]"
    using assms(3,4) split_on_append [of "CHR ''=''" key v] by (simp add: split_on_none)
  then show ?thesis using assms(1,2) by (simp add: memo_part_def)
qed

lemma foldl_no_eq:
  "\<forall>part \<in> set parts. CHR ''='' \<notin> set part \<Longrightarrow> foldl memo_part result parts = result"
  by (induction parts arbitrary: result) (simp_all add: memo_part_no_eq)

text \<open>A string that the memo format can carry as it is: not empty, with no comma
  and no equals sign. An entry of \<^verbatim>\<open>custom\<close> that comes back: key and value are
  such strings, and the key is none of the three names that are not stored as entries.\<close>

definition plain :: "string \<Rightarrow> bool" where
  "plain s = (s \<noteq> [] \<and> CHR '','' \<notin> set s \<and> CHR ''='' \<notin> set s)"

definition plain_entry :: "string \<times> string \<Rightarrow> bool" where
  "plain_entry kv = (plain (fst kv) \<and> plain (snd kv) \<and>
      fst kv \<noteq> ''resource'' \<and> fst kv \<noteq> ''nonce'' \<and> fst kv \<noteq> ''__proto__'')"

lemma split_entries:
  assumes "\<forall>kv \<in> set kvs. plain_entry kv"
  shows "split_on CHR '','' (s @ concat (map memo_entry kvs)) =
         split_on CHR '','' s @ map memo_pair kvs"
  using assms
proof (induction kvs arbitrary: s)
  case Nil
  then show ?case by simp
next
  case (Cons kv kvs)
  have nc: "CHR '','' \<notin> set (memo_pair kv)"
    using Cons.prems by (auto simp: plain_entry_def plain_def memo_pair_def)
  have "s @ concat (map memo_entry (kv # kvs)) =
        s @ CHR '','' # ((memo_pair kv) @ concat (map memo_entry kvs))"
    by (simp add: memo_entry_def memo_pair_def)
  then have "split_on CHR '','' (s @ concat (map memo_entry (kv # kvs))) =
      split_on CHR '','' s @ split_on CHR '','' ((memo_pair kv) @ concat (map memo_entry kvs))"
    by (simp only: split_on_append)
  also have "split_on CHR '','' ((memo_pair kv) @ concat (map memo_entry kvs)) =
      split_on CHR '','' (memo_pair kv) @ map memo_pair kvs"
    using Cons.IH [of "memo_pair kv"] Cons.prems by simp
  also have "split_on CHR '','' (memo_pair kv) = [memo_pair kv]"
    using nc by (rule split_on_none)
  finally show ?case by simp
qed

lemma put_entry_fresh: "key \<notin> fst ` set kvs \<Longrightarrow> put_entry key v kvs = kvs @ [(key, v)]"
  by (induction kvs) auto

lemma foldl_entries:
  assumes "\<forall>kv \<in> set kvs. plain_entry kv" and "distinct (map fst kvs)"
    and "parsed_custom result = (if acc = [] then None else Some acc)"
    and "fst ` set acc \<inter> fst ` set kvs = {}"
  shows "foldl memo_part result (map memo_pair kvs) =
     result\<lparr>parsed_custom := (if acc @ kvs = [] then None else Some (acc @ kvs))\<rparr>"
  using assms
proof (induction kvs arbitrary: result acc)
  case Nil
  then show ?case by simp
next
  case (Cons kv kvs)
  have pe: "plain_entry kv" using Cons.prems(1) by simp
  have fresh: "fst kv \<notin> fst ` set acc" using Cons.prems(4) by auto
  have cur: "(case parsed_custom result of None \<Rightarrow> [] | Some kvs \<Rightarrow> kvs) = acc"
    using Cons.prems(3) by (simp split: if_splits)
  have step: "memo_part result (memo_pair kv) =
      result\<lparr>parsed_custom := Some (acc @ [kv])\<rparr>"
    using pe fresh cur unfolding memo_pair_def
    by (subst memo_part_pair) (auto simp: plain_entry_def plain_def assign_def put_entry_fresh)
  have "foldl memo_part (result\<lparr>parsed_custom := Some (acc @ [kv])\<rparr>)
          (map memo_pair kvs) =
        (result\<lparr>parsed_custom := Some (acc @ [kv])\<rparr>)
          \<lparr>parsed_custom := (if (acc @ [kv]) @ kvs = [] then None else Some ((acc @ [kv]) @ kvs))\<rparr>"
    using Cons.prems by (intro Cons.IH) auto
  then show ?case using step by simp
qed


text \<open>The entries of the optional \<^verbatim>\<open>custom\<close> object, none when it is absent.\<close>

definition entry_list :: "(string \<times> string) list option \<Rightarrow> (string \<times> string) list" where
  "entry_list cust = (case cust of None \<Rightarrow> [] | Some kvs \<Rightarrow> kvs)"

lemma foldl_entries_nonce:
  "\<forall>kv \<in> set kvs. plain_entry kv \<Longrightarrow>
     parsed_nonce (foldl memo_part result (map memo_pair kvs)) =
     parsed_nonce result"
proof (induction kvs arbitrary: result)
  case Nil
  then show ?case by simp
next
  case (Cons kv kvs)
  have "parsed_nonce (memo_part result (memo_pair kv)) = parsed_nonce result"
    using Cons.prems unfolding memo_pair_def
    by (subst memo_part_pair) (auto simp: plain_entry_def plain_def)
  then show ?case using Cons by simp
qed

lemma create_parts:
  assumes "plain non" and "\<forall>kv \<in> set (entry_list cust). plain_entry kv"
  shows "parsePaymentMemo (createPaymentMemo res non cust) =
     foldl memo_part
       ((foldl memo_part empty_memo (split_on CHR '','' res))\<lparr>parsed_nonce := Some non\<rparr>)
       (map memo_pair (entry_list cust))"
proof -
  have cat: "(case cust of None \<Rightarrow> [] | Some kvs \<Rightarrow> concat (map memo_entry kvs)) =
      concat (map memo_entry (entry_list cust))"
    by (simp add: entry_list_def split: option.splits)
  have "drop 5 (createPaymentMemo res non cust) =
      res @ CHR '','' # ((''nonce='' @ non) @ concat (map memo_entry (entry_list cust)))"
    by (simp add: createPaymentMemo_def cat)
  then have "split_on CHR '','' (drop 5 (createPaymentMemo res non cust)) =
      split_on CHR '','' res @
      split_on CHR '','' ((''nonce='' @ non) @ concat (map memo_entry (entry_list cust)))"
    by (simp only: split_on_append)
  also have "split_on CHR '','' ((''nonce='' @ non) @ concat (map memo_entry (entry_list cust))) =
      split_on CHR '','' (''nonce='' @ non) @ map memo_pair (entry_list cust)"
    using assms(2) by (rule split_entries)
  also have "split_on CHR '','' (''nonce='' @ non) = [''nonce='' @ non]"
    using assms(1) by (intro split_on_none) (auto simp: plain_def)
  finally have parts: "split_on CHR '','' (drop 5 (createPaymentMemo res non cust)) =
      split_on CHR '','' res @ [''nonce='' @ non] @
      map memo_pair (entry_list cust)" .
  have non: "memo_part r (''nonce='' @ non) = r\<lparr>parsed_nonce := Some non\<rparr>" for r
    using assms(1) memo_part_pair [of "''nonce''" non r] by (simp add: plain_def)
  have "take 5 (createPaymentMemo res non cust) = ''x402:''"
    by (simp add: createPaymentMemo_def)
  then have "parsePaymentMemo (createPaymentMemo res non cust) =
      foldl memo_part empty_memo (split_on CHR '','' (drop 5 (createPaymentMemo res non cust)))"
    by (simp add: parsePaymentMemo_def)
  also have "\<dots> = foldl memo_part
       (memo_part (foldl memo_part empty_memo (split_on CHR '','' res)) (''nonce='' @ non))
       (map memo_pair (entry_list cust))"
    by (simp only: parts foldl_append foldl_Cons foldl_Nil)
  finally show ?thesis
    by (simp only: non)
qed

text \<open>What does come back, for strings that the format can carry: the nonce, and the
  custom entries as a set (the keys of an object are distinct). A string that does
  not start with \<^verbatim>\<open>x402:\<close> parses to the empty result.\<close>

lemma memo_roundtrip_plain:
  assumes "plain non" and "\<forall>kv \<in> set (entry_list cust). plain_entry kv"
  shows "parsed_nonce (parsePaymentMemo (createPaymentMemo res non cust)) = Some non"
    and "CHR ''='' \<notin> set res \<Longrightarrow> distinct (map fst (entry_list cust)) \<Longrightarrow>
         entries (parsed_custom (parsePaymentMemo (createPaymentMemo res non cust))) = entries cust"
proof -
  show "parsed_nonce (parsePaymentMemo (createPaymentMemo res non cust)) = Some non"
    using assms by (simp add: create_parts foldl_entries_nonce)
  assume b: "CHR ''='' \<notin> set res" "distinct (map fst (entry_list cust))"
  have "\<forall>part \<in> set (split_on CHR '','' res). CHR ''='' \<notin> set part"
    using b(1) split_on_pieces by blast
  then have res: "foldl memo_part empty_memo (split_on CHR '','' res) = empty_memo"
    by (rule foldl_no_eq)
  have "foldl memo_part (empty_memo\<lparr>parsed_nonce := Some non\<rparr>)
           (map memo_pair (entry_list cust)) =
        (empty_memo\<lparr>parsed_nonce := Some non\<rparr>)
          \<lparr>parsed_custom := (if [] @ entry_list cust = [] then None else Some ([] @ entry_list cust))\<rparr>"
    using assms(2) b(2) by (intro foldl_entries) (simp_all add: empty_memo_def)
  then have "parsed_custom (parsePaymentMemo (createPaymentMemo res non cust)) =
      (if entry_list cust = [] then None else Some (entry_list cust))"
    using assms by (simp add: create_parts res)
  then show "entries (parsed_custom (parsePaymentMemo (createPaymentMemo res non cust))) = entries cust"
    by (simp add: entries_def entry_list_def split: option.splits)
qed

lemma parsePaymentMemo_no_prefix: "take 5 m \<noteq> ''x402:'' \<Longrightarrow> parsePaymentMemo m = empty_memo"
  by (simp add: parsePaymentMemo_def)

text \<open>What does not come back: the resource. \<^verbatim>\<open>createPaymentMemo\<close> writes it bare
  after the prefix, and \<^verbatim>\<open>parsePaymentMemo\<close> fills \<^verbatim>\<open>resource\<close> only from a part
  \<^verbatim>\<open>resource=...\<close>; so for every resource without an equals sign, and nonce and
  entries that the format can carry, the parsed memo has no resource.\<close>

lemma foldl_entries_resource:
  "\<forall>kv \<in> set kvs. plain_entry kv \<Longrightarrow>
     parsed_resource (foldl memo_part result (map memo_pair kvs)) =
     parsed_resource result"
proof (induction kvs arbitrary: result)
  case Nil
  then show ?case by simp
next
  case (Cons kv kvs)
  have "parsed_resource (memo_part result (memo_pair kv)) = parsed_resource result"
    using Cons.prems unfolding memo_pair_def
    by (subst memo_part_pair) (auto simp: plain_entry_def plain_def)
  then show ?case using Cons by simp
qed

lemma memo_resource_lost:
  assumes "CHR ''='' \<notin> set res" and "plain non"
    and "\<forall>kv \<in> set (entry_list cust). plain_entry kv"
  shows "parsed_resource (parsePaymentMemo (createPaymentMemo res non cust)) = None"
proof -
  have "\<forall>part \<in> set (split_on CHR '','' res). CHR ''='' \<notin> set part"
    using assms(1) split_on_pieces by blast
  then have "foldl memo_part empty_memo (split_on CHR '','' res) = empty_memo"
    by (rule foldl_no_eq)
  then show ?thesis
    using assms(2,3) by (simp add: create_parts foldl_entries_resource empty_memo_def)
qed

text \<open>The destructuring \<^verbatim>\<open>[key, value] = part.split('=')\<close> keeps the piece between
  the first and the second equals sign: a value is cut at its first equals sign.\<close>

lemma memo_value_cut:
  "parsePaymentMemo (createPaymentMemo ''/api/data'' ''a=b'' None) =
     \<lparr>parsed_resource = None, parsed_nonce = Some ''a'', parsed_custom = None\<rparr>"
  by (simp add: parsePaymentMemo_def createPaymentMemo_def memo_part_def empty_memo_def)

text \<open>
  Claim C7. The claim: \<^verbatim>\<open>parsePaymentMemo(createPaymentMemo(resource, nonce, custom))\<close>
  recovers resource and nonce exactly, and the custom entries as a set. The code does
  not recover the resource: for the resource \<^verbatim>\<open>/api/data\<close> and the nonce
  \<^verbatim>\<open>abc123\<close>, \<^verbatim>\<open>createPaymentMemo\<close> gives \<^verbatim>\<open>x402:/api/data,nonce=abc123\<close>, and
  \<^verbatim>\<open>parsePaymentMemo\<close> of that has the nonce and no resource.
\<close>

theorem C7_resource_not_recovered:
  "createPaymentMemo ''/api/data'' ''abc123'' None = ''x402:/api/data,nonce=abc123''
   \<and> parsePaymentMemo (createPaymentMemo ''/api/data'' ''abc123'' None) =
       \<lparr>parsed_resource = None, parsed_nonce = Some ''abc123'', parsed_custom = None\<rparr>"
  by (simp add: parsePaymentMemo_def createPaymentMemo_def memo_part_def empty_memo_def)

section \<open>The X-PAYMENT-RESPONSE header\<close>

text \<open>The codecs are the platform's (\<^verbatim>\<open>Buffer\<close>, \<^verbatim>\<open>JSON\<close>) and are parameters:
  base64 text to bytes and back, bytes to a string in UTF-8 and back, and JSON.
  Whatever can throw is allowed to.\<close>

record platform =
  JSON_parse :: "string \<Rightarrow> thrown + json"
  JSON_stringify :: "json \<Rightarrow> thrown + string"
  from_base64 :: "string \<Rightarrow> thrown + nat list"
  to_base64 :: "nat list \<Rightarrow> string"
  utf8_decode :: "nat list \<Rightarrow> thrown + string"
  utf8_encode :: "string \<Rightarrow> nat list"

text \<open>\<^verbatim>\<open>Buffer.from(header, 'base64').toString('utf-8')\<close>\<close>

definition decoded_text :: "platform \<Rightarrow> string \<Rightarrow> thrown + string" where
  "decoded_text P header = bind_thrown (from_base64 P header) (utf8_decode P)"

text \<open>\<^verbatim>\<open>decodeXPaymentResponse\<close>: the header is a string, or absent (\<^verbatim>\<open>null\<close> or
  \<^verbatim>\<open>undefined\<close>, which the code does not tell apart); the result is the parsed value,
  or \<^verbatim>\<open>null\<close>.\<close>

definition decodeXPaymentResponse :: "platform \<Rightarrow> string option \<Rightarrow> thrown + json" where
  "decodeXPaymentResponse P header =
     (case header of
        None \<Rightarrow> Inr JNull
      | Some h \<Rightarrow>
          if h = [] then Inr JNull
          else try_catch (bind_thrown (decoded_text P h) (JSON_parse P)) (\<lambda>e. Inr JNull))"


text \<open>A payment response is an object with a string \<^verbatim>\<open>txId\<close> and a string
  \<^verbatim>\<open>status\<close>.\<close>

definition is_payment_response :: "json \<Rightarrow> bool" where
  "is_payment_response v =
     (case v of JObj kvs \<Rightarrow> has_string kvs ''txId'' \<and> has_string kvs ''status'' | _ \<Rightarrow> False)"

text \<open>The header as the specification describes it, against which ``malformed'' is
  read: base64 text of the JSON text of a payment response. This predicate follows the
  specification's words, not the code.\<close>

definition well_formed_header :: "platform \<Rightarrow> string \<Rightarrow> bool" where
  "well_formed_header P h =
     (case decoded_text P h of
        Inl e \<Rightarrow> False
      | Inr jtext \<Rightarrow> (case JSON_parse P jtext of Inl e \<Rightarrow> False | Inr v \<Rightarrow> is_payment_response v))"





lemma decode_parsed:
  "h \<noteq> [] \<Longrightarrow> decoded_text P h = Inr jtext \<Longrightarrow> JSON_parse P jtext = Inr v \<Longrightarrow>
     decodeXPaymentResponse P (Some h) = Inr v"
  by (simp add: decodeXPaymentResponse_def try_catch_def bind_thrown_def)

text \<open>A header that is well formed and not empty decodes to a payment response.\<close>

lemma decode_well_formed:
  assumes "well_formed_header P h" and "h \<noteq> []"
  shows "\<exists>v. decodeXPaymentResponse P (Some h) = Inr v \<and> is_payment_response v"
  using assms
  by (auto simp: well_formed_header_def decode_parsed split: sum.splits)




















end
